theory Spec2Isabelle
  imports Main "HOL-Library.Sublist"
begin

section \<open>Values and strings\<close>

text \<open>
  Message payloads and tool results are JavaScript values as JSON carries them. A missing
  property (\<open>undefined\<close>) is \<open>None\<close> of \<open>json option\<close>. \<open>JNum\<close> is an integer,
  \<open>JDec m e\<close> the decimal \<open>m / 10 ^ e\<close> (the source has the literal \<open>0.7\<close>); no
  property below computes with a number that is not an integer. Strings are byte lists,
  so lengths and case conversion agree with JavaScript on ASCII text.
\<close>

datatype json =
    JNull
  | JBool bool
  | JNum int
  | JDec int nat
  | JStr string
  | JArr "json list"
  | JObj "(string \<times> json) list"

text \<open>\<open>s.includes(pat)\<close> of JavaScript: \<open>pat\<close> occurs in \<open>s\<close> as a contiguous substring.\<close>

fun str_includes :: "string \<Rightarrow> string \<Rightarrow> bool" where
  "str_includes [] pat = (pat = [])"
| "str_includes (c # cs) pat = (prefix pat (c # cs) \<or> str_includes cs pat)"

text \<open>
  \<open>s.replace(pat, rep)\<close> with a string pattern: only the first occurrence is replaced,
  wherever it stands.
\<close>

fun replace_first :: "string \<Rightarrow> string \<Rightarrow> string \<Rightarrow> string" where
  "replace_first pat rep [] = (if pat = [] then rep else [])"
| "replace_first pat rep (c # cs) =
     (if prefix pat (c # cs) then rep @ drop (length pat) (c # cs)
      else c # replace_first pat rep cs)"

text \<open>Decimal digits of a natural number, as \<open>String(n)\<close> prints them.\<close>

definition digit_char :: "nat \<Rightarrow> char" where
  "digit_char d = ''0123456789'' ! d"

fun string_of_nat :: "nat \<Rightarrow> string" where
  "string_of_nat n =
     (if 10 \<le> n then string_of_nat (n div 10) @ [digit_char (n mod 10)] else [digit_char n])"

declare string_of_nat.simps [simp del]

section \<open>JavaScript values\<close>

text \<open>Truthiness, as \<open>if (x)\<close>, \<open>!x\<close> and \<open>x || y\<close> test it.\<close>

fun truthy :: "json \<Rightarrow> bool" where
  "truthy JNull = False"
| "truthy (JBool b) = b"
| "truthy (JNum n) = (n \<noteq> 0)"
| "truthy (JDec m e) = (m \<noteq> 0)"
| "truthy (JStr s) = (s \<noteq> [])"
| "truthy (JArr xs) = True"
| "truthy (JObj kvs) = True"

definition truthy_opt :: "json option \<Rightarrow> bool" where
  "truthy_opt v = (case v of None \<Rightarrow> False | Some x \<Rightarrow> truthy x)"

text \<open>
  \<open>x?.k\<close>: the property \<open>k\<close> of an object, \<open>undefined\<close> when \<open>x\<close> is \<open>undefined\<close> or
  \<open>null\<close> or has no such property. (The only property of a primitive the source reads,
  \<open>length\<close>, is modelled where it is read.)
\<close>

fun jget :: "json \<Rightarrow> string \<Rightarrow> json option" where
  "jget (JObj kvs) k = map_of kvs k"
| "jget j k = None"

definition oget :: "json option \<Rightarrow> string \<Rightarrow> json option" where
  "oget v k = (case v of None \<Rightarrow> None | Some x \<Rightarrow> jget x k)"

text \<open>\<open>o.k = v\<close> on an object: an existing key keeps its place.\<close>

fun alist_set :: "(string \<times> json) list \<Rightarrow> string \<Rightarrow> json \<Rightarrow> (string \<times> json) list" where
  "alist_set [] k v = [(k, v)]"
| "alist_set ((k', v') # kvs) k v = (if k' = k then (k, v) # kvs else (k', v') # alist_set kvs k v)"

fun jset :: "json \<Rightarrow> string \<Rightarrow> json \<Rightarrow> json" where
  "jset (JObj kvs) k v = JObj (alist_set kvs k v)"
| "jset j k v = j"

text \<open>An object literal with a property that may be \<open>undefined\<close>.\<close>

definition field :: "string \<Rightarrow> json option \<Rightarrow> (string \<times> json) list" where
  "field k v = (case v of None \<Rightarrow> [] | Some x \<Rightarrow> [(k, x)])"

text \<open>\<open>String(x)\<close>, the conversion a template literal applies.\<close>

definition string_of_int :: "int \<Rightarrow> string" where
  "string_of_int n = (if n < 0 then ''-'' @ string_of_nat (nat (- n)) else string_of_nat (nat n))"

definition string_of_dec :: "int \<Rightarrow> nat \<Rightarrow> string" where
  "string_of_dec m e =
     (let ds = string_of_nat (nat \<bar>m\<bar>);
          padded = replicate (Suc e - length ds) CHR ''0'' @ ds;
          n = length padded - e
      in (if m < 0 then ''-'' else []) @ take n padded @ ''.'' @ drop n padded)"

fun join :: "string \<Rightarrow> string list \<Rightarrow> string" where
  "join sep [] = []"
| "join sep [x] = x"
| "join sep (x # y # ys) = x @ sep @ join sep (y # ys)"

fun js_to_string :: "json \<Rightarrow> string" where
  "js_to_string JNull = ''null''"
| "js_to_string (JBool b) = (if b then ''true'' else ''false'')"
| "js_to_string (JNum n) = string_of_int n"
| "js_to_string (JDec m e) = string_of_dec m e"
| "js_to_string (JStr s) = s"
| "js_to_string (JArr xs) = join '','' (map (\<lambda>x. if x = JNull then [] else js_to_string x) xs)"
| "js_to_string (JObj kvs) = ''[object Object]''"

definition template :: "json option \<Rightarrow> string" where
  "template v = (case v of None \<Rightarrow> ''undefined'' | Some x \<Rightarrow> js_to_string x)"

section \<open>The hub (server)\<close>

subsection \<open>State\<close>

type_synonym ws = nat

record tool =
  t_name :: string
  t_description :: string
  t_inputSchema :: json

record agent_info =
  ai_ws :: ws
  ai_tools :: "tool list"
  ai_resources :: "json list"
  ai_lastSeen :: nat

record tool_info =
  ti_agentId :: string
  ti_schema :: tool

record wf_step =
  st_tool :: string
  st_arguments :: json
  st_dependsOn :: "nat option"

record workflow =
  wf_steps :: "wf_step list"
  wf_currentStep :: nat
  wf_results :: "json list"
  wf_clientWs :: ws
  wf_status :: string

text \<open>
  Messages the hub receives: \<open>register\<close> (from, tools, resources), \<open>resources/read\<close>
  (id, from, uri), \<open>workflow/start\<close> (id, steps), \<open>response\<close> (id, result,
  \<open>_workflowId\<close>) and \<open>Other\<close> (type, id, to) for every type without a handler, an
  agent's \<open>error\<close> reply among them. The handlers of \<open>tools/list\<close> and \<open>tools/call\<close>
  only send messages and change neither registry nor workflow; they are left out.
\<close>

datatype in_msg =
    Register string "tool list" "json list"
  | ResourcesRead string "string option" string
  | WorkflowStart string "wf_step list"
  | ResponseIn string json "string option"
  | Other string string "string option"

text \<open>Messages the hub sends; the state logs them with the socket they were sent on.\<close>

datatype out_msg =
    Registered string "string list"
  | CapabilitiesUpdated "string list"
  | ResponseOut string json
  | ErrorOut string string string
  | LegacyError string string
  | ToolCallOut string string json "string option"
  | WorkflowResult string "json list" string
  | Relayed in_msg
  | InvalidJson

record hub =
  agents :: "string \<rightharpoonup> agent_info"
  agent_order :: "string list"
  toolRegistry :: "string \<rightharpoonup> tool_info"
  tool_order :: "string list"
  workflows :: "string \<rightharpoonup> workflow"
  clients :: "ws list"
  ws_agentId :: "ws \<rightharpoonup> string"
  outbox :: "(ws \<times> out_msg) list"

definition send :: "ws \<Rightarrow> out_msg \<Rightarrow> hub \<Rightarrow> hub" where
  "send w m h = h\<lparr>outbox := outbox h @ [(w, m)]\<rparr>"

definition ready :: "hub \<Rightarrow> ws \<Rightarrow> bool" where
  "ready h w = (w \<in> set (clients h))"

text \<open>\<open>Map.set\<close> and \<open>Map.delete\<close> keep the insertion order of the keys.\<close>

definition key_set :: "string list \<Rightarrow> string \<Rightarrow> string list" where
  "key_set ks k = (if k \<in> set ks then ks else ks @ [k])"

definition key_delete :: "string list \<Rightarrow> string \<Rightarrow> string list" where
  "key_delete ks k = filter (\<lambda>x. x \<noteq> k) ks"

definition registry_set :: "string \<Rightarrow> tool_info \<Rightarrow> hub \<Rightarrow> hub" where
  "registry_set k v h =
     h\<lparr>toolRegistry := (toolRegistry h)(k \<mapsto> v), tool_order := key_set (tool_order h) k\<rparr>"

definition registry_delete :: "string \<Rightarrow> hub \<Rightarrow> hub" where
  "registry_delete k h =
     h\<lparr>toolRegistry := (toolRegistry h)(k := None), tool_order := key_delete (tool_order h) k\<rparr>"

subsection \<open>Registration and disconnection\<close>

definition register_tools :: "string \<Rightarrow> tool list \<Rightarrow> hub \<Rightarrow> hub" where
  "register_tools agentId ts h =
     foldl (\<lambda>h t. registry_set (t_name t) \<lparr>ti_agentId = agentId, ti_schema = t\<rparr> h) h ts"

definition broadcast_capabilities :: "string \<Rightarrow> hub \<Rightarrow> hub" where
  "broadcast_capabilities agentId h =
     foldl (\<lambda>h' aid.
        case agents h aid of
          None \<Rightarrow> h'
        | Some a \<Rightarrow>
            if aid \<noteq> agentId \<and> ready h (ai_ws a)
            then send (ai_ws a) (CapabilitiesUpdated (tool_order h)) h' else h')
       h (agent_order h)"

definition handle_register :: "nat \<Rightarrow> ws \<Rightarrow> string \<Rightarrow> tool list \<Rightarrow> json list \<Rightarrow> hub \<Rightarrow> hub" where
  "handle_register now w agentId ts rs h =
     (let info = \<lparr>ai_ws = w, ai_tools = ts, ai_resources = rs, ai_lastSeen = now\<rparr>;
          h1 = h\<lparr>agents := (agents h)(agentId \<mapsto> info),
                 agent_order := key_set (agent_order h) agentId,
                 ws_agentId := (ws_agentId h)(w \<mapsto> agentId)\<rparr>;
          h2 = register_tools agentId ts h1;
          h3 = send w (Registered agentId (tool_order h2)) h2
      in broadcast_capabilities agentId h3)"

definition unregister_tools :: "tool list \<Rightarrow> hub \<Rightarrow> hub" where
  "unregister_tools ts h = foldl (\<lambda>h t. registry_delete (t_name t) h) h ts"

text \<open>
  The \<open>close\<close> handler of a connection. The socket has left \<open>wss.clients\<close> when it
  runs. The guard \<open>if (ws.agentId)\<close> fails for a socket that never registered and for
  one that registered under the empty id.
\<close>

definition on_close :: "ws \<Rightarrow> hub \<Rightarrow> hub" where
  "on_close w h0 =
     (let h = h0\<lparr>clients := filter (\<lambda>x. x \<noteq> w) (clients h0)\<rparr> in
      case ws_agentId h w of
        None \<Rightarrow> h
      | Some aid \<Rightarrow>
          if aid = [] then h
          else
            (case agents h aid of
               None \<Rightarrow> h
             | Some agent \<Rightarrow>
                 (let h1 = unregister_tools (ai_tools agent) h
                  in h1\<lparr>agents := (agents h1)(aid := None),
                         agent_order := key_delete (agent_order h1) aid\<rparr>)))"

definition on_connection :: "ws \<Rightarrow> hub \<Rightarrow> hub" where
  "on_connection w h = h\<lparr>clients := clients h @ [w]\<rparr>"

definition hub_init :: hub where
  "hub_init = \<lparr>agents = Map.empty, agent_order = [], toolRegistry = Map.empty, tool_order = [],
     workflows = Map.empty, clients = [], ws_agentId = Map.empty, outbox = []\<rparr>"

subsection \<open>Resource reads\<close>

definition allowedPaths :: "string list" where
  "allowedPaths = [''src/'', ''package.json'', ''README.md'']"

definition hasResourcePermission :: "string \<Rightarrow> string \<Rightarrow> bool" where
  "hasResourcePermission clientId uri =
     (let resourcePath = replace_first ''file://'' [] uri
      in list_ex (\<lambda>allowed. str_includes resourcePath allowed) allowedPaths)"

text \<open>
  The file system is a parameter: \<open>fs p\<close> is the content of the file at the resolved
  path, or the message of the error \<open>readFile\<close> throws.
\<close>

definition handle_resources_read ::
  "(string \<Rightarrow> string + string) \<Rightarrow> ws \<Rightarrow> string \<Rightarrow> string option \<Rightarrow> string \<Rightarrow> hub \<Rightarrow> hub" where
  "handle_resources_read fs w mid sender uri h =
     (let clientId = (case sender of Some f \<Rightarrow> if f = [] then ''client'' else f | None \<Rightarrow> ''client'') in
      if \<not> hasResourcePermission clientId uri
      then send w (ErrorOut mid ''PERMISSION_DENIED'' (''No permission to access '' @ uri)) h
      else if prefix ''file://'' uri
        then (case fs (replace_first ''file://'' [] uri) of
                Inr content \<Rightarrow>
                  send w (ResponseOut mid (JObj [(''uri'', JStr uri),
                    (''mimeType'', JStr ''text/plain''), (''text'', JStr content)])) h
              | Inl err \<Rightarrow> send w (ErrorOut mid ''READ_FAILED'' err) h)
        else send w (ErrorOut mid ''READ_FAILED'' ''Unsupported URI scheme'') h)"

subsection \<open>The workflow engine\<close>








subsection \<open>Message dispatch\<close>





subsection \<open>Running a workflow to its end\<close>








section \<open>Regular expressions\<close>

text \<open>
  The patterns of the source are JavaScript regular expressions; this is the fragment they
  use. Matching is by backtracking: \<open>ms r\<close> lists, in the order in which the engine
  tries them, the ways in which \<open>r\<close> can match at the front of the text, each as the text
  left over and the groups captured so far. A repetition is greedy and drops an
  iteration that consumes nothing.
\<close>

datatype class_item = CChar char | CRange char char | CSpace | CDigit | CWord

datatype regex =
    Eps
  | Chr char
  | Dot
  | Cls bool "class_item list"
  | Seq regex regex
  | Alt regex regex
  | Star regex
  | Grp nat regex
  | Bol
  | Eol

text \<open>\<open>toLowerCase\<close> on a letter of ASCII: bit 5 is set on \<open>A\<close> to \<open>Z\<close>.\<close>

fun to_lower :: "char \<Rightarrow> char" where
  "to_lower (Char b0 b1 b2 b3 b4 b5 b6 b7) =
     (if \<not> b7 \<and> b6 \<and> \<not> b5 \<and> (b0 \<or> b1 \<or> b2 \<or> b3 \<or> b4) \<and> \<not> (b4 \<and> b3 \<and> (b2 \<or> (b1 \<and> b0)))
      then Char b0 b1 b2 b3 b4 True b6 b7 else Char b0 b1 b2 b3 b4 b5 b6 b7)"

definition is_space :: "char \<Rightarrow> bool" where
  "is_space c = (c \<in> set [CHR '' '', CHR 0x09, CHR 0x0A, CHR 0x0B, CHR 0x0C, CHR 0x0D])"

definition is_digit :: "char \<Rightarrow> bool" where
  "is_digit c = (c \<in> set ''0123456789'')"

definition is_word :: "char \<Rightarrow> bool" where
  "is_word c = (c \<in> set ''abcdefghijklmnopqrstuvwxyzABCDEFGHIJKLMNOPQRSTUVWXYZ0123456789_'')"

definition char_eq :: "bool \<Rightarrow> char \<Rightarrow> char \<Rightarrow> bool" where
  "char_eq ci a b = (a = b \<or> (ci \<and> to_lower a = to_lower b))"

definition in_range :: "char \<Rightarrow> char \<Rightarrow> char \<Rightarrow> bool" where
  "in_range a b c = ((of_char a :: nat) \<le> of_char c \<and> (of_char c :: nat) \<le> of_char b)"

fun item_match :: "bool \<Rightarrow> class_item \<Rightarrow> char \<Rightarrow> bool" where
  "item_match ci (CChar a) c = char_eq ci c a"
| "item_match ci (CRange a b) c = (in_range a b c \<or> (ci \<and> in_range (to_lower a) (to_lower b) (to_lower c)))"
| "item_match ci CSpace c = is_space c"
| "item_match ci CDigit c = is_digit c"
| "item_match ci CWord c = is_word c"

type_synonym caps = "(nat \<times> string) list"

fun star_iter ::
  "nat \<Rightarrow> (string \<Rightarrow> caps \<Rightarrow> (string \<times> caps) list) \<Rightarrow> string \<Rightarrow> caps \<Rightarrow> (string \<times> caps) list" where
  "star_iter 0 f s c = [(s, c)]"
| "star_iter (Suc k) f s c =
     concat (map (\<lambda>(s', c'). if length s' = length s then [] else star_iter k f s' c') (f s c)) @ [(s, c)]"

primrec ms :: "regex \<Rightarrow> bool \<Rightarrow> nat \<Rightarrow> string \<Rightarrow> caps \<Rightarrow> (string \<times> caps) list" where
  "ms Eps ci n s c = [(s, c)]"
| "ms (Chr a) ci n s c = (case s of [] \<Rightarrow> [] | x # xs \<Rightarrow> if char_eq ci x a then [(xs, c)] else [])"
| "ms Dot ci n s c =
     (case s of [] \<Rightarrow> [] | x # xs \<Rightarrow> if x \<noteq> CHR 0x0A \<and> x \<noteq> CHR 0x0D then [(xs, c)] else [])"
| "ms (Cls neg items) ci n s c =
     (case s of
        [] \<Rightarrow> []
      | x # xs \<Rightarrow> if list_ex (\<lambda>it. item_match ci it x) items \<noteq> neg then [(xs, c)] else [])"
| "ms (Seq r1 r2) ci n s c = concat (map (\<lambda>(s', c'). ms r2 ci n s' c') (ms r1 ci n s c))"
| "ms (Alt r1 r2) ci n s c = ms r1 ci n s c @ ms r2 ci n s c"
| "ms (Star r) ci n s c = star_iter (length s) (ms r ci n) s c"
| "ms (Grp g r) ci n s c =
     map (\<lambda>(s', c'). (s', (g, take (length s - length s') s) # c')) (ms r ci n s c)"
| "ms Bol ci n s c = (if length s = n then [(s, c)] else [])"
| "ms Eol ci n s c = (if s = [] then [(s, c)] else [])"

fun lit :: "string \<Rightarrow> regex" where
  "lit [] = Eps"
| "lit [a] = Chr a"
| "lit (a # b # bs) = Seq (Chr a) (lit (b # bs))"

fun seqs :: "regex list \<Rightarrow> regex" where
  "seqs [] = Eps"
| "seqs [r] = r"
| "seqs (r # q # rs) = Seq r (seqs (q # rs))"

fun alts :: "regex list \<Rightarrow> regex" where
  "alts [] = Cls False []"
| "alts [r] = r"
| "alts (r # q # rs) = Alt r (alts (q # rs))"

definition opt :: "regex \<Rightarrow> regex" where
  "opt r = Alt r Eps"

definition plus :: "regex \<Rightarrow> regex" where
  "plus r = Seq r (Star r)"

definition anything :: regex where
  "anything = Star Dot"

text \<open>
  A pattern is a regular expression with its \<open>i\<close> flag. \<open>exec_at\<close> is the first match
  that starts at the front of the text, \<open>re_exec\<close> the leftmost match, as \<open>match\<close> and
  \<open>test\<close> find it: the text before it, the text after it, and the groups.
\<close>

type_synonym pattern = "bool \<times> regex"

definition exec_at :: "pattern \<Rightarrow> nat \<Rightarrow> string \<Rightarrow> (string \<times> caps) option" where
  "exec_at p n s = (case ms (snd p) (fst p) n s [] of [] \<Rightarrow> None | m # _ \<Rightarrow> Some m)"

fun exec_from :: "pattern \<Rightarrow> nat \<Rightarrow> string \<Rightarrow> string \<Rightarrow> (string \<times> string \<times> caps) option" where
  "exec_from p n pre [] =
     (case exec_at p n [] of None \<Rightarrow> None | Some (rest, c) \<Rightarrow> Some (rev pre, rest, c))"
| "exec_from p n pre (x # xs) =
     (case exec_at p n (x # xs) of
        None \<Rightarrow> exec_from p n (x # pre) xs
      | Some (rest, c) \<Rightarrow> Some (rev pre, rest, c))"

definition re_exec :: "pattern \<Rightarrow> string \<Rightarrow> (string \<times> string \<times> caps) option" where
  "re_exec p s = exec_from p (length s) [] s"

definition re_test :: "pattern \<Rightarrow> string \<Rightarrow> bool" where
  "re_test p s = (re_exec p s \<noteq> None)"

text \<open>\<open>s.match(p)[g]\<close>, when there is a match and group \<open>g\<close> took part in it.\<close>

definition match_group :: "pattern \<Rightarrow> nat \<Rightarrow> string \<Rightarrow> string option" where
  "match_group p g s = (case re_exec p s of None \<Rightarrow> None | Some (pre, rest, c) \<Rightarrow> map_of c g)"

text \<open>\<open>s.replace(p, '')\<close> for a pattern without the \<open>g\<close> flag.\<close>

definition re_remove_first :: "pattern \<Rightarrow> string \<Rightarrow> string" where
  "re_remove_first p s = (case re_exec p s of None \<Rightarrow> s | Some (pre, rest, c) \<Rightarrow> pre @ rest)"

definition trim :: "string \<Rightarrow> string" where
  "trim s = rev (dropWhile is_space (rev (dropWhile is_space s)))"

section \<open>The orchestrator\<close>

subsection \<open>State\<close>

record plan_step =
  ps_tool :: string
  ps_arguments :: json
  ps_description :: string
  ps_dependsOn :: "nat option"

record request_info =
  ri_resolve :: nat
  ri_step :: plan_step
  ri_stepIndex :: nat
  ri_timestamp :: nat

record recent =
  rr_query :: string
  rr_intent :: string
  rr_result :: "json option"
  rr_timestamp :: nat

record memory =
  lastResult :: "json option"
  lastQuery :: "string option"
  lastIntent :: "string option"
  recentResults :: "recent list"

record tool_call =
  tc_id :: string
  tc_from :: string
  tc_name :: string
  tc_arguments :: json

text \<open>
  \<open>availableTools\<close> lists the keys of the map in insertion order; nothing reads its
  values. A promise is a number; \<open>resolved\<close> logs every call of a promise's \<open>resolve\<close>
  with the value passed, and the promise takes the value of its first entry. \<open>sent\<close>
  logs the tool calls written to the socket.
\<close>

record orch =
  availableTools :: "string list"
  pendingRequests :: "string \<rightharpoonup> request_info"
  conversationMemory :: memory
  promises :: nat
  resolved :: "(nat \<times> json) list"
  sent :: "tool_call list"

definition agentId :: string where
  "agentId = ''orchestrator-agent''"

subsection \<open>Correlation of calls and replies\<close>

text \<open>The callback \<open>setTimeout\<close> holds: the request id, the promise and the tool.\<close>

record timer =
  tm_requestId :: string
  tm_resolve :: nat
  tm_tool :: string
  tm_delay :: nat

text \<open>The values a step's promise is resolved with.\<close>

definition response_value :: "string \<Rightarrow> json option \<Rightarrow> json" where
  "response_value tname result =
     JObj ([(''success'', JBool True)] @ field ''result'' result @ [(''tool'', JStr tname)])"

definition error_value :: "string \<Rightarrow> json option \<Rightarrow> json" where
  "error_value tname message =
     JObj [(''success'', JBool False),
           (''error'', (case message of
                          None \<Rightarrow> JStr ''Unknown error''
                        | Some m \<Rightarrow> if truthy m then m else JStr ''Unknown error'')),
           (''tool'', JStr tname)]"

definition timeout_value :: "string \<Rightarrow> json" where
  "timeout_value tname =
     JObj [(''success'', JBool False), (''error'', JStr ''Tool call timeout''), (''tool'', JStr tname)]"

text \<open>
  The body of the promise in \<open>executeStep\<close>: the pending entry, the call on the socket,
  the timer. \<open>now\<close> is the reading of \<open>Date.now()\<close>.
\<close>

definition dispatch :: "nat \<Rightarrow> nat \<Rightarrow> plan_step \<Rightarrow> orch \<Rightarrow> timer \<times> orch" where
  "dispatch now stepIndex step st =
     (let requestId = ''orchestrator-'' @ string_of_nat now @ ''-'' @ string_of_nat stepIndex;
          requestInfo = \<lparr>ri_resolve = promises st, ri_step = step, ri_stepIndex = stepIndex,
                         ri_timestamp = now\<rparr>
      in (\<lparr>tm_requestId = requestId, tm_resolve = promises st, tm_tool = ps_tool step,
           tm_delay = 10000\<rparr>,
          st\<lparr>promises := Suc (promises st),
             pendingRequests := (pendingRequests st)(requestId \<mapsto> requestInfo),
             sent := sent st @ [\<lparr>tc_id = requestId, tc_from = agentId, tc_name = ps_tool step,
                                 tc_arguments = ps_arguments step\<rparr>]\<rparr>))"

text \<open>The handlers of \<open>response\<close> and \<open>error\<close> messages, and the timer's callback.\<close>

definition on_response :: "string \<Rightarrow> json option \<Rightarrow> orch \<Rightarrow> orch" where
  "on_response mid result st =
     (case pendingRequests st mid of
        None \<Rightarrow> st
      | Some requestInfo \<Rightarrow>
          st\<lparr>pendingRequests := (pendingRequests st)(mid := None),
             resolved := resolved st @
               [(ri_resolve requestInfo, response_value (ps_tool (ri_step requestInfo)) result)]\<rparr>)"

definition on_error :: "string \<Rightarrow> json option \<Rightarrow> orch \<Rightarrow> orch" where
  "on_error mid message st =
     (case pendingRequests st mid of
        None \<Rightarrow> st
      | Some requestInfo \<Rightarrow>
          st\<lparr>pendingRequests := (pendingRequests st)(mid := None),
             resolved := resolved st @
               [(ri_resolve requestInfo, error_value (ps_tool (ri_step requestInfo)) message)]\<rparr>)"

definition on_timeout :: "timer \<Rightarrow> orch \<Rightarrow> orch" where
  "on_timeout tm st =
     (if pendingRequests st (tm_requestId tm) \<noteq> None
      then st\<lparr>pendingRequests := (pendingRequests st)(tm_requestId tm := None),
              resolved := resolved st @ [(tm_resolve tm, timeout_value (tm_tool tm))]\<rparr>
      else st)"

text \<open>
  What can happen to a dispatched call: a response with its id (carrying \<open>msg.result\<close>),
  an error with its id (carrying \<open>msg.error?.message\<close>), or its timer.
\<close>

datatype resolution = ByResponse "json option" | ByError "json option" | ByTimeout

definition attempt :: "timer \<Rightarrow> resolution \<Rightarrow> orch \<Rightarrow> orch" where
  "attempt tm e st =
     (case e of
        ByResponse result \<Rightarrow> on_response (tm_requestId tm) result st
      | ByError message \<Rightarrow> on_error (tm_requestId tm) message st
      | ByTimeout \<Rightarrow> on_timeout tm st)"

definition resolution_value :: "string \<Rightarrow> resolution \<Rightarrow> json" where
  "resolution_value tname e =
     (case e of
        ByResponse result \<Rightarrow> response_value tname result
      | ByError message \<Rightarrow> error_value tname message
      | ByTimeout \<Rightarrow> timeout_value tname)"

subsection \<open>Executing a step\<close>

text \<open>\<open>typeof x === 'object'\<close>.\<close>

fun is_object :: "json \<Rightarrow> bool" where
  "is_object JNull = True"
| "is_object (JArr xs) = True"
| "is_object (JObj kvs) = True"
| "is_object j = False"

definition set_argument :: "plan_step \<Rightarrow> string \<Rightarrow> json \<Rightarrow> plan_step" where
  "set_argument step k v = step\<lparr>ps_arguments := jset (ps_arguments step) k v\<rparr>"

text \<open>
  The dependency block of \<open>executeStep\<close>: four \<open>if\<close> statements, one per consuming
  tool, each looking into the result the step depends on. \<open>pretty\<close> stands for
  \<open>JSON.stringify(x, null, 2)\<close>. Every step that declares a dependency carries an
  object as its arguments.
\<close>

definition inject_write_file :: "(json \<Rightarrow> string) \<Rightarrow> json option \<Rightarrow> plan_step \<Rightarrow> plan_step" where
  "inject_write_file pretty dependentResult step =
     (if ps_tool step = ''write_file'' \<and> truthy_opt (oget dependentResult ''data'')
      then (case oget dependentResult ''data'' of
              None \<Rightarrow> step
            | Some data \<Rightarrow>
                set_argument step ''content''
                  (JStr (if is_object data then pretty data else js_to_string data)))
      else step)"

definition inject_analyze_content :: "json option \<Rightarrow> plan_step \<Rightarrow> plan_step" where
  "inject_analyze_content dependentResult step =
     (if ps_tool step = ''analyze_content''
      then (if truthy_opt (oget (oget dependentResult ''result'') ''text'')
            then (case oget (oget dependentResult ''result'') ''text'' of
                    None \<Rightarrow> step | Some t \<Rightarrow> set_argument step ''content'' t)
            else if truthy_opt (oget dependentResult ''text'')
            then (case oget dependentResult ''text'' of
                    None \<Rightarrow> step | Some t \<Rightarrow> set_argument step ''content'' t)
            else step)
      else step)"

definition inject_explain_concept :: "json option \<Rightarrow> plan_step \<Rightarrow> plan_step" where
  "inject_explain_concept dependentResult step =
     (if ps_tool step = ''explain_concept''
      then (if truthy_opt (oget (oget dependentResult ''result'') ''result'')
            then set_argument step ''context''
                   (JStr (''The calculation result is: '' @
                          template (oget (oget dependentResult ''result'') ''result'')))
            else if truthy_opt (oget dependentResult ''result'')
            then set_argument step ''context''
                   (JStr (''The calculation result is: '' @
                          template (oget dependentResult ''result'')))
            else step)
      else step)"

definition inject_improve_text :: "json option \<Rightarrow> plan_step \<Rightarrow> plan_step" where
  "inject_improve_text dependentResult step =
     (if ps_tool step = ''improve_text''
      then (if truthy_opt (oget (oget dependentResult ''result'') ''content'')
            then (case oget (oget dependentResult ''result'') ''content'' of
                    None \<Rightarrow> step | Some t \<Rightarrow> set_argument step ''text'' t)
            else if truthy_opt (oget dependentResult ''content'')
            then (case oget dependentResult ''content'' of
                    None \<Rightarrow> step | Some t \<Rightarrow> set_argument step ''text'' t)
            else step)
      else step)"

definition apply_dependency :: "(json \<Rightarrow> string) \<Rightarrow> plan_step \<Rightarrow> json list \<Rightarrow> plan_step" where
  "apply_dependency pretty step previousResults =
     (case ps_dependsOn step of
        None \<Rightarrow> step
      | Some d \<Rightarrow>
          (let dependentResult =
                 (if d < length previousResults then Some (previousResults ! d) else None)
           in inject_improve_text dependentResult
                (inject_explain_concept dependentResult
                  (inject_analyze_content dependentResult
                    (inject_write_file pretty dependentResult step)))))"

definition failure :: "json option \<Rightarrow> json" where
  "failure message = JObj ([(''success'', JBool False)] @ field ''error'' message)"

text \<open>
  \<open>executeStep\<close>. The world outside is \<open>env\<close>: for the call of step \<open>i\<close> to a tool with
  its arguments, which of response, error and timeout comes first. The result is the
  value of the promise, \<open>None\<close> if nothing resolved it, so that \<open>await\<close> would not return.
  The promise is new, so only the \<open>resolve\<close> calls made after the dispatch are its own.
  The change of \<open>step.arguments\<close> in place is seen in the call sent and nowhere else.
\<close>

definition executeStep ::
  "(json \<Rightarrow> string) \<Rightarrow> (nat \<Rightarrow> string \<Rightarrow> json \<Rightarrow> resolution) \<Rightarrow> nat \<Rightarrow> plan_step list \<Rightarrow> nat \<Rightarrow>
   json list \<Rightarrow> orch \<Rightarrow> (json \<times> orch) option" where
  "executeStep pretty env now steps stepIndex previousResults st =
     (let step = steps ! stepIndex in
      if ps_tool step = ''error''
      then Some (failure (jget (ps_arguments step) ''message''), st)
      else
        (let step' = apply_dependency pretty step previousResults in
         if ps_tool step' \<notin> set (availableTools st)
         then Some (failure (Some (JStr (''Tool '' @ ps_tool step' @ '' not available''))), st)
         else
           (let (tm, st1) = dispatch now stepIndex step' st;
                st2 = attempt tm (env stepIndex (ps_tool step') (ps_arguments step')) st1
            in map_option (\<lambda>v. (v, st2))
                 (map_of (drop (length (resolved st1)) (resolved st2)) (tm_resolve tm)))))"

definition succeeded :: "json \<Rightarrow> bool" where
  "succeeded r = truthy_opt (jget r ''success'')"

text \<open>
  The loop of \<open>natural_request\<close> (and of \<open>executePlan\<close>) from step \<open>i\<close> on. \<open>clock i\<close> is
  what \<open>Date.now()\<close> reads when step \<open>i\<close> is dispatched.
\<close>

function run_steps ::
  "(json \<Rightarrow> string) \<Rightarrow> (nat \<Rightarrow> string \<Rightarrow> json \<Rightarrow> resolution) \<Rightarrow> (nat \<Rightarrow> nat) \<Rightarrow> plan_step list \<Rightarrow>
   nat \<Rightarrow> json list \<Rightarrow> orch \<Rightarrow> (json list \<times> orch) option" where
  "run_steps pretty env clock steps i results st =
     (if i < length steps then
        (case executeStep pretty env (clock i) steps i results st of
           None \<Rightarrow> None
         | Some (result, st') \<Rightarrow>
             if \<not> succeeded result then Some (results @ [result], st')
             else run_steps pretty env clock steps (Suc i) (results @ [result]) st')
      else Some (results, st))"
  by pat_completeness auto
termination
  by (relation "measure (\<lambda>(pretty, env, clock, steps, i, results, st). length steps - i)") auto

declare run_steps.simps [simp del]

text \<open>
  What step \<open>i\<close> yields and sends, given the results before it: the same computation
  without the state.
\<close>

definition step_result ::
  "(json \<Rightarrow> string) \<Rightarrow> (nat \<Rightarrow> string \<Rightarrow> json \<Rightarrow> resolution) \<Rightarrow> string list \<Rightarrow> plan_step list \<Rightarrow>
   nat \<Rightarrow> json list \<Rightarrow> json" where
  "step_result pretty env tools steps i previousResults =
     (let step = steps ! i; step' = apply_dependency pretty step previousResults in
      if ps_tool step = ''error'' then failure (jget (ps_arguments step) ''message'')
      else if ps_tool step' \<notin> set tools
      then failure (Some (JStr (''Tool '' @ ps_tool step' @ '' not available'')))
      else resolution_value (ps_tool step') (env i (ps_tool step') (ps_arguments step')))"

definition step_sent ::
  "(json \<Rightarrow> string) \<Rightarrow> (nat \<Rightarrow> nat) \<Rightarrow> string list \<Rightarrow> plan_step list \<Rightarrow> nat \<Rightarrow> json list \<Rightarrow>
   tool_call list" where
  "step_sent pretty clock tools steps i previousResults =
     (let step = steps ! i; step' = apply_dependency pretty step previousResults in
      if ps_tool step = ''error'' \<or> ps_tool step' \<notin> set tools then []
      else [\<lparr>tc_id = ''orchestrator-'' @ string_of_nat (clock i) @ ''-'' @ string_of_nat i,
             tc_from = agentId, tc_name = ps_tool step', tc_arguments = ps_arguments step'\<rparr>])"

text \<open>
  The steps the loop stops at. The result of a step has \<open>success: false\<close> in four cases:
  the step is the plan's own \<open>error\<close> step, its tool is not available, the agent replies
  with a message of type \<open>error\<close>, or the timer fires first. A reply of type \<open>response\<close>
  is wrapped with \<open>success: true\<close>, whatever the result it carries says of itself.
\<close>

fun is_response :: "resolution \<Rightarrow> bool" where
  "is_response (ByResponse result) = True"
| "is_response (ByError message) = False"
| "is_response ByTimeout = False"

definition step_fails ::
  "(json \<Rightarrow> string) \<Rightarrow> (nat \<Rightarrow> string \<Rightarrow> json \<Rightarrow> resolution) \<Rightarrow> string list \<Rightarrow> plan_step list \<Rightarrow>
   nat \<Rightarrow> json list \<Rightarrow> bool" where
  "step_fails pretty env tools steps i previousResults =
     (let step = steps ! i; step' = apply_dependency pretty step previousResults in
      ps_tool step = ''error'' \<or> ps_tool step' \<notin> set tools
      \<or> \<not> is_response (env i (ps_tool step') (ps_arguments step')))"

text \<open>
  What a run from step \<open>i\<close> in state \<open>st\<close> leaves: results in step order, each the
  result of its step given the ones before; all but the last successful; a list shorter
  than the plan ends in a failure; and one call sent for every step that was dispatched.
\<close>

definition run_ok ::
  "(json \<Rightarrow> string) \<Rightarrow> (nat \<Rightarrow> string \<Rightarrow> json \<Rightarrow> resolution) \<Rightarrow> (nat \<Rightarrow> nat) \<Rightarrow> plan_step list \<Rightarrow>
   nat \<Rightarrow> orch \<Rightarrow> json list \<Rightarrow> orch \<Rightarrow> bool" where
  "run_ok pretty env clock steps i st results st' =
     (i \<le> length results \<and> length results \<le> length steps
      \<and> availableTools st' = availableTools st
      \<and> conversationMemory st' = conversationMemory st
      \<and> (\<forall>j. i \<le> j \<and> j < length results \<longrightarrow>
             results ! j = step_result pretty env (availableTools st) steps j (take j results))
      \<and> (\<forall>j. i \<le> j \<and> Suc j < length results \<longrightarrow> succeeded (results ! j))
      \<and> (length results < length steps \<longrightarrow> i < length results \<and> \<not> succeeded (last results))
      \<and> sent st' = sent st @
            concat (map (\<lambda>j. step_sent pretty clock (availableTools st) steps j (take j results))
                      [i ..< length results]))"

fun first_unsuccessful :: "json list \<Rightarrow> nat option" where
  "first_unsuccessful [] = None"
| "first_unsuccessful (r # rs) =
     (if succeeded r then map_option Suc (first_unsuccessful rs) else Some 0)"

definition memory_init :: memory where
  "memory_init = \<lparr>lastResult = None, lastQuery = None, lastIntent = None, recentResults = []\<rparr>"

definition orch_init :: orch where
  "orch_init = \<lparr>availableTools = [], pendingRequests = Map.empty,
     conversationMemory = memory_init, promises = 0, resolved = [], sent = []\<rparr>"

subsection \<open>Texts\<close>

text \<open>
  The pictographs that open the messages, as the bytes the source file holds for them.
\<close>

definition mark_cross :: string where
  "mark_cross = [CHR 0xC3, CHR 0xA2, CHR 0xC5, CHR 0x92]"

definition mark_abacus :: string where
  "mark_abacus = [CHR 0xC3, CHR 0xB0, CHR 0xC5, CHR 0xB8, CHR 0xC2, CHR 0xA7, CHR 0xC2, CHR 0xAE]"

definition mark_floppy :: string where
  "mark_floppy = [CHR 0xC3, CHR 0xB0, CHR 0xC5, CHR 0xB8, CHR 0xE2, CHR 0x80, CHR 0x99, CHR 0xC2, CHR 0xBE]"

definition mark_page :: string where
  "mark_page = [CHR 0xC3, CHR 0xB0, CHR 0xC5, CHR 0xB8, CHR 0xE2, CHR 0x80, CHR 0x9C, CHR 0xE2, CHR 0x80, CHR 0x9E]"

definition mark_check :: string where
  "mark_check = [CHR 0xC3, CHR 0xA2, CHR 0xC5, CHR 0x93, CHR 0xE2, CHR 0x80, CHR 0xA6]"

definition mark_thinking :: string where
  "mark_thinking = [CHR 0xC3, CHR 0xB0, CHR 0xC5, CHR 0xB8, CHR 0xC2, CHR 0xA4, CHR 0xE2, CHR 0x80, CHR 0x9D]"

definition mark_bullet :: string where
  "mark_bullet = [CHR 0xC3, CHR 0xA2, CHR 0xE2, CHR 0x82, CHR 0xAC, CHR 0xC2, CHR 0xA2]"

definition unknown_response :: "string \<Rightarrow> string" where
  "unknown_response query =
     mark_thinking @ '' I'' @ [CHR 0x27] @ ''m not sure how to help with: '' @ [CHR 0x22] @ query @
     [CHR 0x22, CHR 0x0A, CHR 0x0A] @
     ''I can help with:'' @
     [CHR 0x0A, CHR 0xC3, CHR 0xA2, CHR 0xE2, CHR 0x82, CHR 0xAC, CHR 0xC2, CHR 0xA2] @
     '' Reading files'' @
     [CHR 0x0A, CHR 0xC3, CHR 0xA2, CHR 0xE2, CHR 0x82, CHR 0xAC, CHR 0xC2, CHR 0xA2] @
     '' Mathematical calculations'' @
     [CHR 0x0A, CHR 0xC3, CHR 0xA2, CHR 0xE2, CHR 0x82, CHR 0xAC, CHR 0xC2, CHR 0xA2] @
     '' Statistics'' @
     [CHR 0x0A, CHR 0xC3, CHR 0xA2, CHR 0xE2, CHR 0x82, CHR 0xAC, CHR 0xC2, CHR 0xA2] @
     '' Web requests'' @
     [CHR 0x0A, CHR 0xC3, CHR 0xA2, CHR 0xE2, CHR 0x82, CHR 0xAC, CHR 0xC2, CHR 0xA2] @
     '' File operations'' @
     [CHR 0x0A, CHR 0x0A] @
     ''Try asking something like '' @
     [CHR 0x22] @
     ''read package.json'' @
     [CHR 0x22] @
     '' or '' @
     [CHR 0x22] @
     ''calculate 2 + 3 * 4'' @
     [CHR 0x22]"

definition no_previous_result :: string where
  "no_previous_result =
     ''No previous result to save. Please run a command that generates content first.''"

definition website_summary_header :: string where
  "website_summary_header = ''Website Summary'' @ [CHR 0x0A] @ ''================'' @ [CHR 0x0A, CHR 0x0A]"

subsection \<open>Intent detection\<close>

text \<open>
  An entry of \<open>intentPatterns\<close>: its patterns, its intent tag, its tools, and its
  extractor functions by name. An extractor sees the query and, in one case, the
  conversation memory.
\<close>

record intent_group =
  ig_patterns :: "pattern list"
  ig_intent :: string
  ig_tools :: "string list"
  ig_methods :: "(string \<times> (memory \<Rightarrow> string \<Rightarrow> json)) list"

definition group_matches :: "intent_group \<Rightarrow> string \<Rightarrow> bool" where
  "group_matches g lowercaseQuery = list_ex (\<lambda>regex. re_test regex lowercaseQuery) (ig_patterns g)"

definition mentioned :: "string \<Rightarrow> string \<Rightarrow> bool" where
  "mentioned lowercaseQuery toolName =
     str_includes lowercaseQuery (replace_first ''_'' '' '' toolName)"

text \<open>
  \<open>detectIntent\<close> over a pattern table and the names of the available tools. The two
  objects built without a table entry have no extractor; their \<open>patterns\<close> field, a
  note in words, is left empty.
\<close>

definition detectIntent :: "intent_group list \<Rightarrow> string list \<Rightarrow> string \<Rightarrow> intent_group" where
  "detectIntent table tools query =
     (let lowercaseQuery = map to_lower query in
      case find (\<lambda>g. group_matches g lowercaseQuery) table of
        Some g \<Rightarrow> g
      | None \<Rightarrow>
          (case find (mentioned lowercaseQuery) tools of
             Some toolName \<Rightarrow>
               \<lparr>ig_patterns = [], ig_intent = toolName, ig_tools = [toolName], ig_methods = []\<rparr>
           | None \<Rightarrow>
               \<lparr>ig_patterns = [], ig_intent = ''unknown'', ig_tools = [], ig_methods = []\<rparr>))"

subsection \<open>Plan compilation\<close>

record plan =
  p_steps :: "plan_step list"
  p_intent :: intent_group
  p_originalQuery :: string
  p_error :: "string option"

text \<open>
  \<open>intent.m(query)\<close>: a \<open>TypeError\<close> when the intent object has no function \<open>m\<close>. A
  thrown error is \<open>Inl\<close> of its message.
\<close>

definition call_method :: "intent_group \<Rightarrow> string \<Rightarrow> memory \<Rightarrow> string \<Rightarrow> string + json" where
  "call_method g m mem query =
     (case map_of (ig_methods g) m of
        None \<Rightarrow> Inl (''intent.'' @ m @ '' is not a function'')
      | Some f \<Rightarrow> Inr (f mem query))"

definition with_method ::
  "intent_group \<Rightarrow> string \<Rightarrow> memory \<Rightarrow> string \<Rightarrow> (json \<Rightarrow> string + plan_step list) \<Rightarrow>
   string + plan_step list" where
  "with_method g m mem query k =
     (case call_method g m mem query of Inl e \<Rightarrow> Inl e | Inr v \<Rightarrow> k v)"

definition mk_step :: "string \<Rightarrow> (string \<times> json) list \<Rightarrow> string \<Rightarrow> nat option \<Rightarrow> plan_step" where
  "mk_step tname args descr dep =
     \<lparr>ps_tool = tname, ps_arguments = JObj args, ps_description = descr, ps_dependsOn = dep\<rparr>"

text \<open>The memory entry as the object it is, and the prior result \<open>save_context\<close> saves.\<close>

definition recent_json :: "recent \<Rightarrow> json" where
  "recent_json r =
     JObj ([(''query'', JStr (rr_query r)), (''intent'', JStr (rr_intent r))] @
           field ''result'' (rr_result r) @ [(''timestamp'', JNum (int (rr_timestamp r)))])"

definition prior_result :: "memory \<Rightarrow> json option" where
  "prior_result mem =
     (if \<not> truthy_opt (lastResult mem) \<and> recentResults mem \<noteq> []
      then (let recent = last (recentResults mem)
            in if truthy_opt (rr_result recent) then rr_result recent
               else Some (recent_json recent))
      else lastResult mem)"

definition content_to_save :: "(json \<Rightarrow> string) \<Rightarrow> memory \<Rightarrow> json \<Rightarrow> json" where
  "content_to_save pretty mem prior =
     (if (lastIntent mem = Some ''web_ai_analyze'' \<or>
          (recentResults mem \<noteq> [] \<and> rr_intent (last (recentResults mem)) = ''web_ai_analyze''))
         \<and> truthy_opt (jget prior ''analysis'')
      then JStr (website_summary_header @ template (jget prior ''analysis''))
      else
        (case jget prior ''result'' of
           Some (JStr s) \<Rightarrow> JStr s
         | Some r \<Rightarrow> JStr (pretty r)
         | None \<Rightarrow>
             (case jget prior ''response'' of
                Some r \<Rightarrow>
                  if truthy r then r
                  else (case prior of JStr s \<Rightarrow> JStr s | _ \<Rightarrow> JStr (pretty prior))
              | None \<Rightarrow> (case prior of JStr s \<Rightarrow> JStr s | _ \<Rightarrow> JStr (pretty prior)))))"

text \<open>
  \<open>numbers.join(', ')\<close>: a \<open>TypeError\<close> unless \<open>numbers\<close> is an array. The messages of
  the errors the engine itself throws are worded as V8 words them.
\<close>

definition join_numbers :: "json \<Rightarrow> string + string" where
  "join_numbers numbers =
     (case numbers of
        JArr xs \<Rightarrow> Inr (join '', '' (map (\<lambda>x. if x = JNull then [] else js_to_string x) xs))
      | JNull \<Rightarrow> Inl ''Cannot read properties of null (reading 'join')''
      | _ \<Rightarrow> Inl ''numbers.join is not a function'')"

text \<open>
  The steps \<open>createExecutionPlan\<close> pushes for an intent, or the error it throws;
  \<open>save_context\<close>, which can set \<open>plan.error\<close> instead, is apart.
\<close>

definition plan_steps ::
  "intent_group \<Rightarrow> string \<Rightarrow> memory \<Rightarrow> string + plan_step list" where
  "plan_steps intent query mem =
     (let tag = ig_intent intent; ext = (\<lambda>m. with_method intent m mem query) in
      if tag = ''read_file'' then
        ext ''extractPath'' (\<lambda>path.
          Inr [mk_step ''read_file'' [(''path'', path)] (''Read file: '' @ js_to_string path) None])
      else if tag = ''calculate'' then
        ext ''extractExpression'' (\<lambda>expression.
          Inr [mk_step ''calculate'' [(''expression'', expression)]
                 (''Calculate: '' @ js_to_string expression) None])
      else if tag = ''statistics'' then
        ext ''extractNumbers'' (\<lambda>numbers.
          case join_numbers numbers of
            Inl e \<Rightarrow> Inl e
          | Inr joined \<Rightarrow>
              Inr [mk_step ''statistics''
                     [(''numbers'', numbers),
                      (''operations'', JArr [JStr ''mean'', JStr ''sum'', JStr ''min'', JStr ''max'',
                                            JStr ''stddev''])]
                     (''Analyze numbers: ['' @ joined @ '']'') None])
      else if tag = ''fetch_url'' then
        ext ''extractUrl'' (\<lambda>url.
          Inr [mk_step ''fetch_url'' [(''url'', url)] (''Fetch URL: '' @ js_to_string url) None])
      else if tag = ''extract_text'' then
        ext ''extractUrl'' (\<lambda>url.
          Inr [mk_step ''extract_text'' [(''url'', url), (''max_length'', JNum 2000)]
                 (''Extract text from: '' @ js_to_string url) None])
      else if tag = ''list_files'' then
        ext ''extractDirectory'' (\<lambda>directory.
          Inr [mk_step ''list_files'' [(''directory'', directory)]
                 (''List files in: '' @ js_to_string directory) None])
      else if tag = ''write_file'' then
        ext ''extractFileInfo'' (\<lambda>fileInfo.
          if fileInfo = JNull then Inl ''Cannot read properties of null (reading 'path')''
          else Inr [\<lparr>ps_tool = ''write_file'', ps_arguments = fileInfo,
                     ps_description = ''Write to file: '' @ template (jget fileInfo ''path''),
                     ps_dependsOn = None\<rparr>])
      else if tag = ''file_analysis'' then
        ext ''extractPath'' (\<lambda>filePath.
          Inr [mk_step ''read_file'' [(''path'', filePath)]
                 (''Read file: '' @ js_to_string filePath) None,
               mk_step ''statistics''
                 [(''numbers'', JArr [JNum 1, JNum 2, JNum 3, JNum 4, JNum 5]),
                  (''operations'', JArr [JStr ''mean'', JStr ''sum''])]
                 ''Analyze data (simplified for demo)'' (Some 0)])
      else if tag = ''fetch_and_save'' then
        ext ''extractInfo'' (\<lambda>fetchInfo.
          if fetchInfo = JNull then Inl ''Cannot read properties of null (reading 'url')''
          else Inr [\<lparr>ps_tool = ''fetch_url'',
                      ps_arguments = JObj (field ''url'' (jget fetchInfo ''url'')),
                      ps_description = ''Fetch: '' @ template (jget fetchInfo ''url''),
                      ps_dependsOn = None\<rparr>,
                    \<lparr>ps_tool = ''write_file'',
                      ps_arguments = JObj (field ''path'' (jget fetchInfo ''path'') @
                                           [(''content'', JStr ''PLACEHOLDER'')]),
                      ps_description = ''Save to: '' @ template (jget fetchInfo ''path''),
                      ps_dependsOn = Some 0\<rparr>])
      else if tag = ''ai_analyze'' then
        ext ''extractContent'' (\<lambda>content.
          ext ''extractAnalysisType'' (\<lambda>analysisType.
            Inr [mk_step ''analyze_content''
                   [(''content'', if truthy content then content
                                  else JStr ''Content will be provided by compound workflow''),
                    (''analysis_type'', analysisType)]
                   (''AI analyze content: '' @ js_to_string analysisType) None]))
      else if tag = ''ai_generate'' then
        ext ''extractPrompt'' (\<lambda>prompt.
          Inr [mk_step ''generate_text''
                 [(''prompt'', prompt), (''max_tokens'', JNum 500), (''temperature'', JDec 7 1)]
                 (''AI generate: '' @ js_to_string prompt) None])
      else if tag = ''ai_explain'' then
        ext ''extractConcept'' (\<lambda>concept.
          Inr [mk_step ''explain_concept''
                 [(''concept'', concept), (''complexity_level'', JStr ''beginner''),
                  (''include_examples'', JBool True)]
                 (''AI explain: '' @ js_to_string concept) None])
      else if tag = ''ai_improve'' then
        ext ''extractText'' (\<lambda>text.
          ext ''extractImprovementType'' (\<lambda>improvementType.
            Inr [mk_step ''improve_text''
                   [(''text'', if truthy text then text
                               else JStr ''Text will be provided by compound workflow''),
                    (''improvement_type'', improvementType)]
                   (''AI improve text: '' @ js_to_string improvementType) None]))
      else if tag = ''ai_question'' then
        ext ''extractQuestion'' (\<lambda>question.
          Inr [mk_step ''answer_question'' [(''question'', question)]
                 (''AI answer: '' @ js_to_string question) None])
      else if tag = ''web_ai_analyze'' then
        ext ''extractUrl'' (\<lambda>url.
          Inr [mk_step ''extract_text'' [(''url'', url), (''max_length'', JNum 3000)]
                 (''Extract text from: '' @ js_to_string url) None,
               mk_step ''analyze_content''
                 [(''content'', JStr ''PLACEHOLDER''), (''analysis_type'', JStr ''summary'')]
                 ''AI analyze extracted content'' (Some 0)])
      else if tag = ''file_ai_analyze'' then
        ext ''extractPath'' (\<lambda>aiFilePath.
          Inr [mk_step ''read_file'' [(''path'', aiFilePath)]
                 (''Read file: '' @ js_to_string aiFilePath) None,
               mk_step ''analyze_content''
                 [(''content'', JStr ''PLACEHOLDER''), (''analysis_type'', JStr ''comprehensive'')]
                 ''AI analyze file content'' (Some 0)])
      else if tag = ''calc_ai_explain'' then
        ext ''extractExpression'' (\<lambda>expression.
          Inr [mk_step ''calculate'' [(''expression'', expression)]
                 (''Calculate: '' @ js_to_string expression) None,
               mk_step ''explain_concept''
                 [(''concept'', JStr (''mathematical calculation: '' @ js_to_string expression)),
                  (''context'', JStr ''PLACEHOLDER''), (''complexity_level'', JStr ''beginner''),
                  (''include_examples'', JBool True)]
                 ''AI explain calculation'' (Some 0)])
      else
        Inr [mk_step ''error''
               [(''message'', JStr (''I don'' @ [CHR 0x27] @ ''t understand how to: '' @ query))]
               ''Unknown request'' None])"

definition createExecutionPlan ::
  "(json \<Rightarrow> string) \<Rightarrow> intent_group \<Rightarrow> string \<Rightarrow> memory \<Rightarrow> string + plan" where
  "createExecutionPlan pretty intent query mem =
     (let empty = \<lparr>p_steps = [], p_intent = intent, p_originalQuery = query, p_error = None\<rparr> in
      if ig_intent intent = ''save_context'' then
        (case call_method intent ''extractFileName'' mem query of
           Inl e \<Rightarrow> Inl e
         | Inr fileName \<Rightarrow>
             (case prior_result mem of
                None \<Rightarrow> Inr (empty\<lparr>p_error := Some no_previous_result\<rparr>)
              | Some prior \<Rightarrow>
                  if \<not> truthy prior then Inr (empty\<lparr>p_error := Some no_previous_result\<rparr>)
                  else Inr (empty\<lparr>p_steps :=
                         [mk_step ''write_file''
                            [(''path'', fileName), (''content'', content_to_save pretty mem prior)]
                            (''Save previous result to: '' @ js_to_string fileName) None]\<rparr>)))
      else
        (case plan_steps intent query mem of
           Inl e \<Rightarrow> Inl e
         | Inr steps \<Rightarrow> Inr (empty\<lparr>p_steps := steps\<rparr>)))"

subsection \<open>The response\<close>

definition nth_opt :: "'a list \<Rightarrow> nat \<Rightarrow> 'a option" where
  "nth_opt xs i = (if i < length xs then Some (xs ! i) else None)"

definition or_else :: "json option \<Rightarrow> json \<Rightarrow> json" where
  "or_else v d = (case v of None \<Rightarrow> d | Some x \<Rightarrow> if truthy x then x else d)"

text \<open>
  \<open>synthesizeResponse\<close>. The failure message, and the texts for \<open>calculate\<close> and
  \<open>save_context\<close>, are written out; \<open>render\<close> stands for the texts of the other intents,
  which format tool results with \<open>toFixed\<close>, \<open>JSON.stringify\<close>, \<open>slice\<close> and \<open>map\<close> and
  can throw on a result of the wrong shape. Nothing below depends on what they say.
\<close>

definition synthesizeResponse ::
  "(string \<Rightarrow> json list \<Rightarrow> memory \<Rightarrow> string + string) \<Rightarrow> plan \<Rightarrow> json list \<Rightarrow> memory \<Rightarrow>
   string + string" where
  "synthesizeResponse render pl results mem =
     (let successful = filter succeeded results;
          failed = filter (\<lambda>r. \<not> succeeded r) results
      in case failed of
           f # _ \<Rightarrow> Inr (mark_cross @ '' I encountered an error: '' @ template (jget f ''error''))
         | [] \<Rightarrow>
             (if ig_intent (p_intent pl) = ''calculate'' then
                (let calcResult = oget (nth_opt successful 0) ''result''
                 in Inr (mark_abacus @ '' Result: '' @ template (oget calcResult ''expression'') @
                         '' = '' @ template (oget calcResult ''result'')))
              else if ig_intent (p_intent pl) = ''save_context'' then
                (let contextSaveResult = oget (nth_opt successful 0) ''result'' in
                 if \<not> truthy_opt contextSaveResult
                 then Inr (mark_cross @ '' Failed to save file - no result returned'')
                 else if \<not> truthy_opt (oget contextSaveResult ''success'')
                 then Inr (mark_cross @ '' Failed to save file: '' @
                           js_to_string (or_else (oget contextSaveResult ''error'') (JStr ''Unknown error'')))
                 else Inr (mark_floppy @ '' Successfully saved previous result to '' @
                           js_to_string (or_else (oget contextSaveResult ''path'') (JStr ''unknown file'')) @
                           [CHR 0x0A] @ mark_page @ '' Content: '' @
                           js_to_string (or_else (oget contextSaveResult ''size'') (JNum 0)) @
                           '' bytes from '' @ [CHR 0x22] @
                           (case lastQuery mem of
                              None \<Rightarrow> ''previous operation''
                            | Some q \<Rightarrow> if q = [] then ''previous operation'' else q) @
                           [CHR 0x22]))
              else render (ig_intent (p_intent pl)) successful mem))"

subsection \<open>The tool \<open>natural_request\<close>\<close>

record nr_result =
  nr_success :: bool
  nr_query :: string
  nr_intent :: "string option"
  nr_executedSteps :: "nat option"
  nr_response :: string
  nr_error :: "string option"

definition caught :: "string \<Rightarrow> string \<Rightarrow> nr_result" where
  "caught query message =
     \<lparr>nr_success = False, nr_query = query, nr_intent = None, nr_executedSteps = None,
      nr_response = mark_cross @ '' Error processing request: '' @ message,
      nr_error = Some message\<rparr>"

text \<open>The update of the conversation memory after a run whose last result is a success.\<close>

definition remember :: "string \<Rightarrow> string \<Rightarrow> json option \<Rightarrow> nat \<Rightarrow> memory \<Rightarrow> memory" where
  "remember query tag result now mem =
     (let pushed = recentResults mem @
            [\<lparr>rr_query = query, rr_intent = tag, rr_result = result, rr_timestamp = now\<rparr>]
      in \<lparr>lastResult = result, lastQuery = Some query, lastIntent = Some tag,
          recentResults = (if length pushed > 5 then tl pushed else pushed)\<rparr>)"

text \<open>
  \<open>natural_request\<close> with its \<open>try\<close> and \<open>catch\<close>. \<open>None\<close>: an \<open>await\<close> never returns.
  \<open>clock i\<close> is \<open>Date.now()\<close> at step \<open>i\<close>, and past the last step at the memory update.
\<close>

definition natural_request ::
  "(json \<Rightarrow> string) \<Rightarrow> (string \<Rightarrow> json list \<Rightarrow> memory \<Rightarrow> string + string) \<Rightarrow>
   (nat \<Rightarrow> string \<Rightarrow> json \<Rightarrow> resolution) \<Rightarrow> (nat \<Rightarrow> nat) \<Rightarrow> intent_group list \<Rightarrow> string \<Rightarrow> orch \<Rightarrow>
   (nr_result \<times> orch) option" where
  "natural_request pretty render env clock table query st =
     (let intent = detectIntent table (availableTools st) query in
      if ig_intent intent = ''unknown''
      then Some (\<lparr>nr_success = True, nr_query = query, nr_intent = Some ''unknown'',
                   nr_executedSteps = None, nr_response = unknown_response query,
                   nr_error = None\<rparr>, st)
      else
        (case createExecutionPlan pretty intent query (conversationMemory st) of
           Inl e \<Rightarrow> Some (caught query e, st)
         | Inr pl \<Rightarrow>
             (case run_steps pretty env clock (p_steps pl) 0 [] st of
                None \<Rightarrow> None
              | Some (results, st1) \<Rightarrow>
                  (case synthesizeResponse render pl results (conversationMemory st1) of
                     Inl e \<Rightarrow> Some (caught query e, st1)
                   | Inr response \<Rightarrow>
                       Some (\<lparr>nr_success = True, nr_query = query,
                               nr_intent = Some (ig_intent intent),
                               nr_executedSteps = Some (length (p_steps pl)),
                               nr_response = response, nr_error = None\<rparr>,
                             if results \<noteq> [] \<and> succeeded (last results)
                             then st1\<lparr>conversationMemory :=
                                    remember query (ig_intent intent) (jget (last results) ''result'')
                                      (clock (length (p_steps pl))) (conversationMemory st1)\<rparr>
                             else st1)))))"


subsection \<open>The head of the pattern table\<close>

text \<open>
  The first six entries of \<open>intentPatterns\<close>, in the order of the source; every pattern
  carries the \<open>i\<close> flag. \<open>anything\<close> is \<open>.*\<close>; \<open>lit ''http'', opt (Chr CHR ''s''),
  lit ''://''\<close> is \<open>https?:\/\/\<close>.
\<close>

definition url_pattern :: pattern where
  "url_pattern =
     (True, Grp 1 (seqs [lit ''http'', opt (Chr CHR ''s''), lit ''://'', plus (Cls True [CSpace])]))"

definition extractUrl :: "string \<Rightarrow> memory \<Rightarrow> string \<Rightarrow> json" where
  "extractUrl fallback mem query =
     JStr (case match_group url_pattern 1 query of Some u \<Rightarrow> u | None \<Rightarrow> fallback)"

definition web_ai_analyze_patterns :: "pattern list" where
  "web_ai_analyze_patterns =
     [(True, alts [seqs [lit ''summarize'', anything, lit ''webpage''], seqs [lit ''summarize'', anything, lit ''url''], seqs [lit ''analyze'', anything, lit ''webpage'']]),
      (True, seqs [lit ''summarize'', anything, lit ''from'', anything, lit ''http'']),
      (True, seqs [lit ''summarize'', anything, lit ''this'', anything, lit ''webpage'']),
      (True, seqs [lit ''summarize'', anything, lit ''http'', opt (Chr CHR ''s''), lit ''://'']),
      (True, seqs [lit ''analyze'', anything, lit ''http'', opt (Chr CHR ''s''), lit ''://'']),
      (True, seqs [lit ''summary'', anything, lit ''of'', anything, lit ''http'', opt (Chr CHR ''s''), lit ''://'']),
      (True, seqs [lit ''http'', opt (Chr CHR ''s''), lit ''://'', anything, lit ''summarize'']),
      (True, seqs [lit ''http'', opt (Chr CHR ''s''), lit ''://'', anything, lit ''analyze''])]"

definition extract_text_patterns :: "pattern list" where
  "extract_text_patterns =
     [(True, alts [seqs [lit ''extract'', anything, lit ''text''], seqs [lit ''get'', anything, lit ''text'', anything, lit ''from''], seqs [lit ''read'', anything, lit ''webpage''], seqs [lit ''scrape'', anything, lit ''text'']]),
      (True, seqs [lit ''text'', anything, lit ''from'', anything, lit ''page'']),
      (True, seqs [lit ''extract'', anything, lit ''data'', anything, lit ''from'', anything, lit ''http'']),
      (True, seqs [lit ''extract'', anything, lit ''from'', anything, lit ''wiki'']),
      (True, seqs [lit ''get'', anything, lit ''content'', anything, lit ''from'']),
      (True, seqs [lit ''extract'', anything, lit ''from'', anything, lit ''http'', opt (Chr CHR ''s''), lit ''://'']),
      (True, seqs [lit ''http'', opt (Chr CHR ''s''), lit ''://'', anything, lit ''extract'']),
      (True, seqs [lit ''http'', opt (Chr CHR ''s''), lit ''://'', anything, lit ''text''])]"

definition fetch_url_patterns :: "pattern list" where
  "fetch_url_patterns =
     [(True, alts [lit ''fetch'', seqs [lit ''get'', anything, lit ''url''], lit ''download'', seqs [lit ''request'', anything, lit ''http'']]),
      (True, seqs [lit ''api'', anything, lit ''call'']),
      (True, seqs [lit ''get'', anything, lit ''data'', anything, lit ''from'']),
      (True, seqs [lit ''retrieve'', anything, lit ''from'', anything, lit ''http''])]"

definition read_file_patterns :: "pattern list" where
  "read_file_patterns =
     [(True, alts [lit ''read'', lit ''show'', lit ''display'', seqs [lit ''get'', anything, lit ''file'']]),
      (True, seqs [lit ''what'', anything, lit ''in'', anything, lit ''file'']),
      (True, seqs [lit ''content'', anything, lit ''of''])]"

definition save_context_patterns :: "pattern list" where
  "save_context_patterns =
     [(True, alts [seqs [lit ''save'', anything, lit ''that''], seqs [lit ''save'', anything, lit ''it''], seqs [lit ''save'', anything, lit ''summary''], seqs [lit ''save'', anything, lit ''result'']]),
      (True, alts [seqs [lit ''write'', anything, lit ''that'', anything, lit ''to''], seqs [lit ''put'', anything, lit ''that'', anything, lit ''in''], seqs [lit ''store'', anything, lit ''that'']]),
      (True, alts [seqs [lit ''save'', anything, lit ''previous''], seqs [lit ''save'', anything, lit ''last'']]),
      (True, seqs [lit ''create'', anything, lit ''file'', anything, lit ''with'', anything, lit ''that''])]"

definition calculate_patterns :: "pattern list" where
  "calculate_patterns =
     [(True, alts [lit ''calculate'', lit ''compute'', lit ''math'', lit ''solve'']),
      (True, alts [seqs [lit ''what'', anything, lit ''is'', anything, Chr CHR ''+''], Chr CHR ''-'', Chr CHR ''*'', Chr CHR ''/''])]"

text \<open>The three patterns \<open>extractPath\<close> tries in turn.\<close>

definition path_pattern_1 :: pattern where
  "path_pattern_1 =
     (True, seqs [alts [lit ''file'', lit ''path''], plus (Cls False [CSpace]),
                  opt (Cls False [CChar (CHR 0x22), CChar (CHR 0x60), CChar (CHR 0x27)]),
                  Grp 1 (plus (Cls True [CChar (CHR 0x22), CChar (CHR 0x60), CChar (CHR 0x27), CSpace])),
                  opt (Cls False [CChar (CHR 0x22), CChar (CHR 0x60), CChar (CHR 0x27)])])"

definition path_pattern_2 :: pattern where
  "path_pattern_2 =
     (True, seqs [Cls False [CChar (CHR 0x22), CChar (CHR 0x60), CChar (CHR 0x27)],
                  Grp 1 (seqs [plus (Cls True [CChar (CHR 0x22), CChar (CHR 0x60), CChar (CHR 0x27)]), Chr CHR ''.'',
                               plus (Cls False [CRange CHR ''a'' CHR ''z''])]),
                  Cls False [CChar (CHR 0x22), CChar (CHR 0x60), CChar (CHR 0x27)]])"

definition path_pattern_3 :: pattern where
  "path_pattern_3 =
     (False, Grp 1 (seqs [plus (Cls False [CWord]), Chr CHR ''.'', plus (Cls False [CWord])]))"

definition extractPath :: "memory \<Rightarrow> string \<Rightarrow> json" where
  "extractPath mem query =
     JStr (case match_group path_pattern_1 1 query of
             Some p \<Rightarrow> p
           | None \<Rightarrow>
               (case match_group path_pattern_2 1 query of
                  Some p \<Rightarrow> p
                | None \<Rightarrow>
                    (case match_group path_pattern_3 1 query of
                       Some p \<Rightarrow> p
                     | None \<Rightarrow> ''package.json'')))"

definition file_name_pattern :: pattern where
  "file_name_pattern =
     (True, seqs [alts [lit ''to'', lit ''as'', lit ''file'', lit ''called''], plus (Cls False [CSpace]),
                  opt (Cls False [CChar (CHR 0x22), CChar (CHR 0x60), CChar (CHR 0x27)]),
                  Grp 1 (seqs [plus (Cls True [CChar (CHR 0x22), CChar (CHR 0x60), CChar (CHR 0x27), CSpace]),
                               opt (seqs [Chr CHR ''.'', plus (Cls False [CRange CHR ''a'' CHR ''z''])])]),
                  opt (Cls False [CChar (CHR 0x22), CChar (CHR 0x60), CChar (CHR 0x27)])])"

definition extractFileName :: "memory \<Rightarrow> string \<Rightarrow> json" where
  "extractFileName mem query =
     JStr (case match_group file_name_pattern 1 query of
             Some fileName \<Rightarrow>
               if \<not> str_includes fileName ''.'' then fileName @ ''.txt'' else fileName
           | None \<Rightarrow>
               if lastIntent mem = Some ''web_ai_analyze'' then ''webpage_summary.txt''
               else ''result.txt'')"

definition expression_chars :: "class_item list" where
  "expression_chars =
     [CRange CHR ''0'' CHR ''9'', CChar CHR ''+'', CChar CHR ''-'', CChar CHR ''*'', CChar CHR ''/'',
      CChar CHR ''('', CChar CHR '')'', CChar CHR ''.'', CSpace]"

definition expression_pattern :: pattern where
  "expression_pattern =
     (True, seqs [alts [lit ''calculate'', lit ''compute'', lit ''solve'',
                        seqs [lit ''what'', anything, lit ''is'']],
                  Star (Cls False [CSpace]),
                  opt (Cls False [CChar CHR '':'', CChar (CHR 0x60), CChar (CHR 0x22)]),
                  Star (Cls False [CSpace]),
                  Grp 1 (plus (Cls False expression_chars))])"

definition command_prefix_pattern :: pattern where
  "command_prefix_pattern =
     (True, seqs [anything, alts [lit ''calculate'', lit ''compute'', lit ''solve''],
                  Star (Cls False [CSpace])])"

definition extractExpression :: "memory \<Rightarrow> string \<Rightarrow> json" where
  "extractExpression mem query =
     JStr (case match_group expression_pattern 1 query of
             Some e \<Rightarrow> trim e
           | None \<Rightarrow> re_remove_first command_prefix_pattern query)"

definition web_ai_analyze_group :: intent_group where
  "web_ai_analyze_group =
     \<lparr>ig_patterns = web_ai_analyze_patterns, ig_intent = ''web_ai_analyze'',
      ig_tools = [''extract_text'', ''analyze_content''],
      ig_methods = [(''extractUrl'', extractUrl [])]\<rparr>"

definition extract_text_group :: intent_group where
  "extract_text_group =
     \<lparr>ig_patterns = extract_text_patterns, ig_intent = ''extract_text'',
      ig_tools = [''extract_text''],
      ig_methods = [(''extractUrl'', extractUrl ''https://example.com'')]\<rparr>"

definition fetch_url_group :: intent_group where
  "fetch_url_group =
     \<lparr>ig_patterns = fetch_url_patterns, ig_intent = ''fetch_url'', ig_tools = [''fetch_url''],
      ig_methods = [(''extractUrl'', extractUrl ''https://jsonplaceholder.typicode.com/posts/1'')]\<rparr>"

definition read_file_group :: intent_group where
  "read_file_group =
     \<lparr>ig_patterns = read_file_patterns, ig_intent = ''read_file'', ig_tools = [''read_file''],
      ig_methods = [(''extractPath'', extractPath)]\<rparr>"

definition save_context_group :: intent_group where
  "save_context_group =
     \<lparr>ig_patterns = save_context_patterns, ig_intent = ''save_context'',
      ig_tools = [''write_file''], ig_methods = [(''extractFileName'', extractFileName)]\<rparr>"

definition calculate_group :: intent_group where
  "calculate_group =
     \<lparr>ig_patterns = calculate_patterns, ig_intent = ''calculate'', ig_tools = [''calculate''],
      ig_methods = [(''extractExpression'', extractExpression)]\<rparr>"

definition intentPatterns_head :: "intent_group list" where
  "intentPatterns_head =
     [web_ai_analyze_group, extract_text_group, fetch_url_group, read_file_group,
      save_context_group, calculate_group]"

section \<open>The calculator agent\<close>

text \<open>
  What \<open>new Function('"use strict"; return (' + cleaned + ')')()\<close> does is the engine's
  affair: it returns a value, returns a number that is not finite, or throws.
\<close>

datatype js_outcome = Returned json | NotFinite | Threw string

definition allowedChars :: pattern where
  "allowedChars = (False, seqs [Bol, plus (Cls False expression_chars), Eol])"

definition dangerous :: pattern where
  "dangerous =
     (True, Grp 1 (alts [lit ''function'', lit ''eval'', lit ''window'', lit ''document'',
                         lit ''process'', lit ''require'', lit ''import'', lit ''export'']))"

fun is_number :: "json \<Rightarrow> bool" where
  "is_number (JNum n) = True"
| "is_number (JDec m e) = True"
| "is_number j = False"

definition evaluateExpression :: "(string \<Rightarrow> js_outcome) \<Rightarrow> string \<Rightarrow> string + json" where
  "evaluateExpression engine expr =
     (let cleaned = filter (\<lambda>c. \<not> is_space c) expr in
      if \<not> re_test allowedChars cleaned
      then Inl ''Invalid characters in expression. Only numbers, +, -, *, /, (, ) are allowed.''
      else if re_test dangerous expr
      then Inl ''Potentially dangerous expression detected.''
      else
        (case engine cleaned of
           Threw message \<Rightarrow> Inl (''Calculation error: '' @ message)
         | NotFinite \<Rightarrow> Inl ''Calculation error: Result is not a valid number.''
         | Returned v \<Rightarrow>
             if is_number v then Inr v
             else Inl ''Calculation error: Result is not a valid number.''))"

text \<open>
  The handler of \<open>calculate\<close>. \<open>locale\<close> stands for \<open>toLocaleString\<close>. An expression
  that is not a string makes \<open>expr.replace\<close> throw.
\<close>

definition handle_calculate :: "(string \<Rightarrow> js_outcome) \<Rightarrow> (json \<Rightarrow> string) \<Rightarrow> json \<Rightarrow> json" where
  "handle_calculate engine locale args =
     (let refused = (\<lambda>message.
            JObj ([(''success'', JBool False)] @ field ''expression'' (jget args ''expression'') @
                  [(''error'', JStr message)]))
      in case jget args ''expression'' of
           Some (JStr expr) \<Rightarrow>
             (case evaluateExpression engine expr of
                Inr result \<Rightarrow>
                  JObj [(''success'', JBool True), (''expression'', JStr expr), (''result'', result),
                        (''formatted'', JStr (locale result))]
              | Inl message \<Rightarrow> refused message)
         | None \<Rightarrow> refused ''Cannot read properties of undefined (reading 'replace')''
         | Some JNull \<Rightarrow> refused ''Cannot read properties of null (reading 'replace')''
         | Some _ \<Rightarrow> refused ''expr.replace is not a function'')"

text \<open>
  The agent's answer to a call of \<open>calculate\<close>, as the orchestrator meets it: a response
  that carries the handler's result.
\<close>

definition calculate_reply :: "(string \<Rightarrow> js_outcome) \<Rightarrow> (json \<Rightarrow> string) \<Rightarrow> json \<Rightarrow> resolution" where
  "calculate_reply engine locale args = ByResponse (Some (handle_calculate engine locale args))"


subsection \<open>A JavaScript engine for integer arithmetic\<close>

text \<open>
  A model of the engine on the texts the scenario needs: integer literals, the binary
  and unary \<open>+\<close> and \<open>-\<close>, \<open>*\<close> and parentheses, with values below \<open>2 ^ 53\<close> in size, where
  the engine's arithmetic is exact. It reads a sum of products of factors. Two equal signs
  in a row are one token (\<open>++\<close>, \<open>--\<close>, \<open>**\<close>) and a literal with a leading zero is refused
  in strict mode. On any other text its answer stands for nothing. The first argument
  bounds the depth of the reading.
\<close>

definition digit_value :: "char \<Rightarrow> nat" where
  "digit_value c = length (takeWhile (\<lambda>d. d \<noteq> c) ''0123456789'')"

fun read_digits :: "nat \<Rightarrow> string \<Rightarrow> nat \<times> string" where
  "read_digits acc [] = (acc, [])"
| "read_digits acc (c # cs) =
     (if is_digit c then read_digits (10 * acc + digit_value c) cs else (acc, c # cs))"

definition exact :: "int \<Rightarrow> bool" where
  "exact v = (\<bar>v\<bar> < 2 ^ 53)"

text \<open>
  What is being read: a factor, a product, the rest of a product whose value so far is
  given, a sum, the rest of a sum.
\<close>

datatype reading = Factor | Product | MoreFactors | Sum | MoreProducts

fun rd :: "nat \<Rightarrow> reading \<Rightarrow> int \<Rightarrow> string \<Rightarrow> (int \<times> string) option" where
  "rd 0 m v s = None"
| "rd (Suc k) m v s =
     (case m of
        Factor \<Rightarrow>
          (case s of
             [] \<Rightarrow> None
           | c # cs \<Rightarrow>
               if c = CHR ''('' then
                 (case rd k Sum 0 cs of
                    Some (w, r) \<Rightarrow>
                      (case r of d # rest \<Rightarrow> if d = CHR '')'' then Some (w, rest) else None
                       | [] \<Rightarrow> None)
                  | None \<Rightarrow> None)
               else if c = CHR ''-'' then
                 (if cs \<noteq> [] \<and> hd cs = CHR ''-'' then None
                  else map_option (\<lambda>(w, r). (- w, r)) (rd k Factor 0 cs))
               else if c = CHR ''+'' then
                 (if cs \<noteq> [] \<and> hd cs = CHR ''+'' then None else rd k Factor 0 cs)
               else if is_digit c then
                 (if c = CHR ''0'' \<and> cs \<noteq> [] \<and> is_digit (hd cs) then None
                  else (let (n, r) = read_digits 0 (c # cs)
                        in if exact (int n) then Some (int n, r) else None))
               else None)
      | Product \<Rightarrow>
          (case rd k Factor 0 s of None \<Rightarrow> None | Some (w, r) \<Rightarrow> rd k MoreFactors w r)
      | MoreFactors \<Rightarrow>
          (case s of
             [] \<Rightarrow> Some (v, [])
           | c # cs \<Rightarrow>
               if c = CHR ''*'' then
                 (if cs \<noteq> [] \<and> hd cs = CHR ''*'' then None
                  else (case rd k Factor 0 cs of
                          None \<Rightarrow> None
                        | Some (w, r) \<Rightarrow>
                            if exact (v * w) then rd k MoreFactors (v * w) r else None))
               else Some (v, c # cs))
      | Sum \<Rightarrow>
          (case rd k Product 0 s of None \<Rightarrow> None | Some (w, r) \<Rightarrow> rd k MoreProducts w r)
      | MoreProducts \<Rightarrow>
          (case s of
             [] \<Rightarrow> Some (v, [])
           | c # cs \<Rightarrow>
               if c = CHR ''+'' then
                 (if cs \<noteq> [] \<and> hd cs = CHR ''+'' then None
                  else (case rd k Product 0 cs of
                          None \<Rightarrow> None
                        | Some (w, r) \<Rightarrow>
                            if exact (v + w) then rd k MoreProducts (v + w) r else None))
               else if c = CHR ''-'' then
                 (if cs \<noteq> [] \<and> hd cs = CHR ''-'' then None
                  else (case rd k Product 0 cs of
                          None \<Rightarrow> None
                        | Some (w, r) \<Rightarrow>
                            if exact (v - w) then rd k MoreProducts (v - w) r else None))
               else Some (v, c # cs)))"

definition integer_engine :: "string \<Rightarrow> js_outcome" where
  "integer_engine s =
     (case rd (4 * length s + 4) Sum 0 s of
        Some (v, []) \<Rightarrow> Returned (JNum v)
      | _ \<Rightarrow> Threw ''not an integer expression'')"

definition plain_locale :: "json \<Rightarrow> string" where
  "plain_locale v = js_to_string v"


section \<open>The wording of the specification, for comparison\<close>

text \<open>
  The specification speaks of the request URI "with its \<open>file://\<close> prefix removed". Read
  literally, a URI that does not start with \<open>file://\<close> is left as it is.
\<close>

definition without_file_prefix :: "string \<Rightarrow> string" where
  "without_file_prefix uri =
     (if prefix ''file://'' uri then drop (length ''file://'') uri else uri)"

definition contains_allowed :: "string \<Rightarrow> bool" where
  "contains_allowed p = list_ex (\<lambda>allowed. str_includes p allowed) allowedPaths"

section \<open>Scenarios\<close>

subsection \<open>Scenario: two agents advertise the same tool name\<close>

definition shared_tool :: tool where
  "shared_tool = \<lparr>t_name = ''lookup'', t_description = ''Look something up'', t_inputSchema = JObj []\<rparr>"

text \<open>
  Agent \<open>a\<close> and then agent \<open>b\<close> register a tool of the same name on two connections.
\<close>

definition two_owners :: hub where
  "two_owners =
     handle_register 20 2 ''b'' [shared_tool] []
       (on_connection 2
         (handle_register 10 1 ''a'' [shared_tool] []
           (on_connection 1 hub_init)))"

subsection \<open>Scenario: a calculator agent, a client, and two workflows\<close>







subsection \<open>Scenario: a workflow that fetches and then writes\<close>







subsection \<open>Scenario: a workflow whose call is never answered\<close>



subsection \<open>Scenario: a plan whose second call is never answered\<close>

definition calc_step :: plan_step where
  "calc_step = \<lparr>ps_tool = ''calculate'', ps_arguments = JObj [(''expression'', JStr ''2 + 3'')],
     ps_description = ''Calculate: 2 + 3'', ps_dependsOn = None\<rparr>"


definition calc_orch :: orch where
  "calc_orch = orch_init\<lparr>availableTools := [''calculate'', ''explain_concept'']\<rparr>"


definition calc_result :: json where
  "calc_result = JObj [(''success'', JBool True), (''expression'', JStr ''2 + 3''),
     (''result'', JNum 5), (''formatted'', JStr ''5'')]"


definition fixed_clock :: "nat \<Rightarrow> nat" where
  "fixed_clock i = 5000"

subsection \<open>Scenario: two requests in natural language\<close>

text \<open>
  A request for a calculation and a request to save the previous result; an orchestrator
  that knows \<open>write_file\<close> only; a calculator agent that answers every call with the
  handler's result; and a renderer for the intents whose texts are not written out.
\<close>

definition calc_query :: string where
  "calc_query = ''calculate 25 * 4 + 10''"

definition save_query :: string where
  "save_query = ''save that to out.txt''"

definition write_orch :: orch where
  "write_orch = orch_init\<lparr>availableTools := [''write_file'']\<rparr>"

definition calculator :: "nat \<Rightarrow> string \<Rightarrow> json \<Rightarrow> resolution" where
  "calculator i tname args = calculate_reply integer_engine plain_locale args"

definition no_render :: "string \<Rightarrow> json list \<Rightarrow> memory \<Rightarrow> string + string" where
  "no_render tag successful mem = Inl ''not rendered''"

subsection \<open>Scenario: a request the calculator refuses\<close>

text \<open>
  A request to calculate that names no expression: \<open>extractExpression\<close> is left with the
  blank after the command word, and the calculator refuses the empty expression before it
  asks the engine anything.
\<close>

definition words_query :: string where
  "words_query = ''calculate two plus two''"

definition refusal :: json where
  "refusal = JObj [(''success'', JBool False), (''expression'', JStr []),
     (''error'', JStr ''Invalid characters in expression. Only numbers, +, -, *, /, (, ) are allowed.'')]"

subsection \<open>Scenario: two calls dispatched in the same millisecond\<close>

text \<open>
  The orchestrator serves two requests at once. Each dispatches step 0 of its plan, the
  first a calculation and the second a file read, and \<open>Date.now()\<close> reads 5000 both
  times. Then the calculator's response to the first call arrives.
\<close>

definition read_step :: plan_step where
  "read_step = \<lparr>ps_tool = ''read_file'', ps_arguments = JObj [(''path'', JStr ''package.json'')],
     ps_description = ''Read file: package.json'', ps_dependsOn = None\<rparr>"

definition first_dispatched :: "timer \<times> orch" where
  "first_dispatched = dispatch 5000 0 calc_step calc_orch"

definition both_dispatched :: "timer \<times> orch" where
  "both_dispatched = dispatch 5000 0 read_step (snd first_dispatched)"

definition first_answered :: orch where
  "first_answered = on_response ''orchestrator-5000-0'' (Some calc_result) (snd both_dispatched)"

definition file_result :: json where
  "file_result = JObj [(''success'', JBool True), (''path'', JStr ''package.json''),
     (''content'', JStr ''{}''), (''size'', JNum 2)]"

subsection \<open>Scenario: a workflow whose second step names an unknown tool\<close>


section \<open>Properties of the hub\<close>

subsection \<open>Strings\<close>

lemma str_includes_sublist: "str_includes s pat = sublist pat s"
  by (induction s) (auto simp: sublist_Cons_right)

subsection \<open>Resource permission\<close>

text \<open>
  C10, as the code has it. The permission check grants access if and only if the request
  URI with the first occurrence of \<open>file://\<close> removed (wherever it stands) contains
  \<open>src/\<close>, \<open>package.json\<close> or \<open>README.md\<close> as a substring, whoever asks. A request
  that fails the check is answered \<open>PERMISSION_DENIED\<close>; one that passes it with a URI
  that does not start with \<open>file://\<close> is answered \<open>READ_FAILED\<close>.
\<close>

theorem resources_read_permission:
  "(hasResourcePermission clientId uri \<longleftrightarrow>
      (\<exists>allowed \<in> set allowedPaths. sublist allowed (replace_first ''file://'' [] uri)))
   \<and> (\<not> hasResourcePermission clientId uri \<longrightarrow>
        handle_resources_read fs w mid sender uri h =
          send w (ErrorOut mid ''PERMISSION_DENIED'' (''No permission to access '' @ uri)) h)
   \<and> (hasResourcePermission clientId uri \<and> \<not> prefix ''file://'' uri \<longrightarrow>
        handle_resources_read fs w mid sender uri h =
          send w (ErrorOut mid ''READ_FAILED'' ''Unsupported URI scheme'') h)"
  by (auto simp: hasResourcePermission_def handle_resources_read_def list_ex_iff
      str_includes_sublist Let_def)

text \<open>
  A URI outside the project that merely contains \<open>src/\<close>, under another scheme: it
  passes the check and the read is refused as \<open>READ_FAILED\<close>.
\<close>

theorem resources_read_permission_witness:
  "hasResourcePermission ''client'' ''http://elsewhere/etc/src/passwd''
   \<and> handle_resources_read (\<lambda>p. Inl ''ENOENT'') 1 ''7'' None ''http://elsewhere/etc/src/passwd'' hub_init =
       send 1 (ErrorOut ''7'' ''READ_FAILED'' ''Unsupported URI scheme'') hub_init"
  using resources_read_permission [of "''client''" "''http://elsewhere/etc/src/passwd''"
      "\<lambda>p. Inl ''ENOENT''" 1 "''7''" None hub_init]
  by (simp add: hasResourcePermission_def allowedPaths_def)

text \<open>
  C10 as worded fails where \<open>file://\<close> stands inside the URI: removing it there joins
  \<open>s\<close> and \<open>rc/\<close> into \<open>src/\<close>, so the check grants a URI that, with its prefix removed,
  contains none of the three substrings.
\<close>

theorem resources_read_prefix_counterexample:
  "\<not> (hasResourcePermission ''client'' ''sfile://rc/x.js'' \<longleftrightarrow>
        contains_allowed (without_file_prefix ''sfile://rc/x.js''))"
  by (simp add: hasResourcePermission_def allowedPaths_def contains_allowed_def
      without_file_prefix_def)

subsection \<open>Disconnection\<close>

text \<open>
  C5 at a name collision. Before agent \<open>a\<close> disconnects, the registry maps the name to
  agent \<open>b\<close>, the later writer. The close handler of \<open>a\<close> deletes the entry by name:
  afterwards \<open>b\<close> is still registered and still advertises the tool, and the registry no
  longer knows it.
\<close>

theorem disconnect_removes_colliding_tool:
  "map_option ti_agentId (toolRegistry two_owners ''lookup'') = Some ''b''
   \<and> toolRegistry (on_close 1 two_owners) ''lookup'' = None
   \<and> map_option ai_tools (agents (on_close 1 two_owners) ''b'') = Some [shared_tool]"
  by (simp add: two_owners_def handle_register_def on_connection_def on_close_def hub_init_def
      register_tools_def unregister_tools_def registry_set_def registry_delete_def
      broadcast_capabilities_def send_def ready_def key_set_def key_delete_def Let_def
      shared_tool_def)

subsection \<open>The workflow engine\<close>










subsection \<open>The scenario workflow\<close>

lemma string_of_nat_0: "string_of_nat 0 = ''0''"
  by (simp add: string_of_nat.simps digit_char_def)











subsection \<open>Workflows: failure, completion, result message\<close>




section \<open>Properties of the orchestrator\<close>

subsection \<open>Correlation\<close>

lemma attempt_noop:
  "pendingRequests s (tm_requestId tm) = None \<Longrightarrow> attempt tm e s = s"
  by (cases e) (simp_all add: attempt_def on_response_def on_error_def on_timeout_def)

lemma attempts_noop:
  "pendingRequests s (tm_requestId tm) = None \<Longrightarrow> foldl (\<lambda>s e. attempt tm e s) s es = s"
  by (induction es) (simp_all add: attempt_noop)

lemma attempt_first:
  assumes "dispatch now i step st = (tm, st1)"
  shows "resolved (attempt tm e st1) = resolved st @ [(tm_resolve tm, resolution_value (ps_tool step) e)]"
    and "pendingRequests (attempt tm e st1) (tm_requestId tm) = None"
    and "promises (attempt tm e st1) = Suc (promises st)"
    and "tm_resolve tm = promises st"
  using assms
  by (cases e; auto simp: dispatch_def Let_def attempt_def on_response_def on_error_def
      on_timeout_def resolution_value_def)+

text \<open>
  One call on its own. The call sent carries the request id, the pending entry under that
  id holds the call's promise, and the timer is set to 10000 ms. Whichever of a response
  with the id, an error with the id, or the timer comes first resolves the promise, once,
  and removes the entry; every later attempt for the id finds no entry and leaves the whole
  state as it is. This is about the state right after the dispatch: nothing is said here
  of a second call dispatched under the same id before the first is resolved.
\<close>

lemma lone_call_resolves_once:
  assumes d: "dispatch now i step st = (tm, st1)"
  shows "tm_delay tm = 10000
   \<and> map tc_id (sent st1) = map tc_id (sent st) @ [tm_requestId tm]
   \<and> map_option ri_resolve (pendingRequests st1 (tm_requestId tm)) = Some (tm_resolve tm)
   \<and> resolved (attempt tm e st1) =
       resolved st @ [(tm_resolve tm, resolution_value (ps_tool step) e)]
   \<and> pendingRequests (attempt tm e st1) (tm_requestId tm) = None
   \<and> foldl (\<lambda>s e'. attempt tm e' s) (attempt tm e st1) es = attempt tm e st1"
proof -
  have sent: "tm_delay tm = 10000"
    "map tc_id (sent st1) = map tc_id (sent st) @ [tm_requestId tm]"
    "map_option ri_resolve (pendingRequests st1 (tm_requestId tm)) = Some (tm_resolve tm)"
    using d by (auto simp: dispatch_def Let_def)
  have gone: "pendingRequests (attempt tm e st1) (tm_requestId tm) = None"
    by (rule attempt_first(2) [OF d])
  show ?thesis
    using sent gone attempt_first(1) [OF d, of e] attempts_noop [OF gone, of es]
    by simp
qed

subsection \<open>The plan executor\<close>

lemma attempt_frame:
  "availableTools (attempt tm e st) = availableTools st"
  "conversationMemory (attempt tm e st) = conversationMemory st"
  "sent (attempt tm e st) = sent st"
  by (cases e; simp add: attempt_def on_response_def on_error_def on_timeout_def split: option.splits)+

lemma executeStep_eq:
  "\<exists>st'. executeStep pretty env (clock i) steps i prev st =
           Some (step_result pretty env (availableTools st) steps i prev, st')
     \<and> availableTools st' = availableTools st
     \<and> conversationMemory st' = conversationMemory st
     \<and> sent st' = sent st @ step_sent pretty clock (availableTools st) steps i prev"
proof -
  let ?step = "steps ! i"
  let ?step' = "apply_dependency pretty ?step prev"
  consider (err) "ps_tool ?step = ''error''"
    | (unavailable) "ps_tool ?step \<noteq> ''error''" "ps_tool ?step' \<notin> set (availableTools st)"
    | (sent) "ps_tool ?step \<noteq> ''error''" "ps_tool ?step' \<in> set (availableTools st)"
    by blast
  then show ?thesis
  proof cases
    case err
    then show ?thesis by (simp add: executeStep_def step_result_def step_sent_def Let_def)
  next
    case unavailable
    then show ?thesis by (simp add: executeStep_def step_result_def step_sent_def Let_def)
  next
    case sent
    obtain tm st1 where d: "dispatch (clock i) i ?step' st = (tm, st1)"
      by (cases "dispatch (clock i) i ?step' st") auto
    let ?e = "env i (ps_tool ?step') (ps_arguments ?step')"
    let ?st2 = "attempt tm ?e st1"
    have r: "resolved ?st2 = resolved st @ [(tm_resolve tm, resolution_value (ps_tool ?step') ?e)]"
      using d by (cases ?e; auto simp: dispatch_def Let_def attempt_def on_response_def on_error_def
          on_timeout_def resolution_value_def)
    have r1: "resolved st1 = resolved st" using d by (auto simp: dispatch_def Let_def)
    have s1: "sent st1 = sent st @ step_sent pretty clock (availableTools st) steps i prev"
      "availableTools st1 = availableTools st" "conversationMemory st1 = conversationMemory st"
      using d sent by (auto simp: dispatch_def Let_def step_sent_def)
    have "executeStep pretty env (clock i) steps i prev st =
            Some (resolution_value (ps_tool ?step') ?e, ?st2)"
      using sent d by (simp add: executeStep_def Let_def r r1)
    then show ?thesis
      using sent s1 by (simp add: step_result_def Let_def attempt_frame)
  qed
qed


lemma run_steps_char:
  "n = length steps - i \<Longrightarrow> length prev = i \<Longrightarrow> i \<le> length steps \<Longrightarrow>
   \<exists>results st'. run_steps pretty env clock steps i prev st = Some (results, st')
      \<and> take i results = prev \<and> run_ok pretty env clock steps i st results st'"
proof (induction n arbitrary: i prev st)
  case 0
  then have "run_steps pretty env clock steps i prev st = Some (prev, st)"
    by (subst run_steps.simps) simp
  then show ?case using 0 by (auto simp: run_ok_def)
next
  case (Suc n)
  then have lt: "i < length steps" by simp
  let ?r = "step_result pretty env (availableTools st) steps i prev"
  obtain st1 where e: "executeStep pretty env (clock i) steps i prev st = Some (?r, st1)"
    and f: "availableTools st1 = availableTools st" "conversationMemory st1 = conversationMemory st"
      "sent st1 = sent st @ step_sent pretty clock (availableTools st) steps i prev"
    using executeStep_eq [of pretty env clock i steps prev st] by blast
  show ?case
  proof (cases "succeeded ?r")
    case False
    have "run_steps pretty env clock steps i prev st = Some (prev @ [?r], st1)"
      using lt e False by (subst run_steps.simps) simp
    moreover have "run_ok pretty env clock steps i st (prev @ [?r]) st1"
      using lt f False Suc.prems(2)
      by (auto simp: run_ok_def nth_append less_Suc_eq)
    ultimately show ?thesis using Suc.prems(2) by simp
  next
    case True
    have unfold: "run_steps pretty env clock steps i prev st =
                  run_steps pretty env clock steps (Suc i) (prev @ [?r]) st1"
      using lt e True by (subst run_steps.simps) simp
    obtain results st' where
      run: "run_steps pretty env clock steps (Suc i) (prev @ [?r]) st1 = Some (results, st')"
      and pre: "take (Suc i) results = prev @ [?r]"
      and ok: "run_ok pretty env clock steps (Suc i) st1 results st'"
    proof -
      have n: "n = length steps - Suc i" using Suc.prems(1) by arith
      have l: "length (prev @ [?r]) = Suc i" using Suc.prems(2) by simp
      have b: "Suc i \<le> length steps" using lt by simp
      from Suc.IH [OF n l b, of st1] show ?thesis using that by blast
    qed
    have len: "Suc i \<le> length results" using ok by (simp add: run_ok_def)
    have okA: "results ! j = step_result pretty env (availableTools st1) steps j (take j results)"
      if "Suc i \<le> j \<and> j < length results" for j
      using ok that unfolding run_ok_def by blast
    have okB: "succeeded (results ! j)" if "Suc i \<le> j \<and> Suc j < length results" for j
      using ok that unfolding run_ok_def by blast
    have okC: "sent st' = sent st1 @
            concat (map (\<lambda>j. step_sent pretty clock (availableTools st1) steps j (take j results))
                      [Suc i ..< length results])"
      using ok unfolding run_ok_def by blast
    have okD: "length results \<le> length steps" "availableTools st' = availableTools st1"
      "conversationMemory st' = conversationMemory st1"
      using ok unfolding run_ok_def by blast+
    have okE: "\<not> succeeded (last results)" if "length results < length steps"
      using ok that unfolding run_ok_def by blast
    have ti: "take i results = prev"
      using pre Suc.prems(2) len
      by (metis append_eq_conv_conj length_take min.absorb2 take_take  Suc_leD le_refl nat_le_linear)
    have ri: "results ! i = ?r"
      using pre Suc.prems(2) len
      by (metis lessI nth_append_length nth_take)
    have upt: "[i ..< length results] = i # [Suc i ..< length results]"
      using len by (simp add: upt_conv_Cons)
    have A: "results ! j = step_result pretty env (availableTools st) steps j (take j results)"
      if "i \<le> j \<and> j < length results" for j
    proof -
      from that consider "j = i" | "Suc i \<le> j \<and> j < length results" by arith
      then show ?thesis
      proof cases
        case 1
        then show ?thesis using ri ti by simp
      next
        case 2
        then show ?thesis using okA [of j] f by simp
      qed
    qed
    have B: "succeeded (results ! j)" if "i \<le> j \<and> Suc j < length results" for j
    proof -
      from that consider "j = i" | "Suc i \<le> j \<and> Suc j < length results" by arith
      then show ?thesis
      proof cases
        case 1
        then show ?thesis using ri True by simp
      next
        case 2
        then show ?thesis using okB [of j] by simp
      qed
    qed
    have C: "sent st' = sent st @
            concat (map (\<lambda>j. step_sent pretty clock (availableTools st) steps j (take j results))
                      [i ..< length results])"
      using okC f ti unfolding upt by simp
    have "run_ok pretty env clock steps i st results st'"
      unfolding run_ok_def
      using A B C okD okE f len by auto
    then show ?thesis using unfold run ti by simp
  qed
qed




lemma first_unsuccessful_None:
  "first_unsuccessful rs = None \<longleftrightarrow> (\<forall>j<length rs. succeeded (rs ! j))"
proof (induction rs)
  case Nil
  then show ?case by simp
next
  case (Cons r rs)
  then show ?case by (auto simp: nth_Cons split: nat.splits)
qed

lemma first_unsuccessful_Some:
  "first_unsuccessful rs = Some k \<Longrightarrow>
     k < length rs \<and> \<not> succeeded (rs ! k) \<and> (\<forall>j<k. succeeded (rs ! j))"
proof (induction rs arbitrary: k)
  case Nil
  then show ?case by simp
next
  case (Cons r rs)
  then show ?case by (auto simp: nth_Cons split: nat.splits if_splits)
qed

lemma run_okD:
  assumes "run_ok pretty env clock steps i st results st'"
  shows "i \<le> length results" "length results \<le> length steps"
    "availableTools st' = availableTools st" "conversationMemory st' = conversationMemory st"
    "\<And>j. i \<le> j \<Longrightarrow> j < length results \<Longrightarrow>
       results ! j = step_result pretty env (availableTools st) steps j (take j results)"
    "\<And>j. i \<le> j \<Longrightarrow> Suc j < length results \<Longrightarrow> succeeded (results ! j)"
    "length results < length steps \<Longrightarrow> i < length results \<and> \<not> succeeded (last results)"
    "sent st' = sent st @
       concat (map (\<lambda>j. step_sent pretty clock (availableTools st) steps j (take j results))
                 [i ..< length results])"
  using assms unfolding run_ok_def by blast+

lemma run_ok_halts:
  assumes "run_ok pretty env clock steps 0 st results st'" "j < length results" "\<not> succeeded (results ! j)"
  shows "length results = Suc j"
proof (rule ccontr)
  assume "length results \<noteq> Suc j"
  then have "Suc j < length results" using assms(2) by simp
  then have "succeeded (results ! j)" using assms(1) unfolding run_ok_def by blast
  then show False using assms(3) by simp
qed

lemma run_ok_length:
  assumes "run_ok pretty env clock steps 0 st results st'"
  shows "case first_unsuccessful results of
           None \<Rightarrow> length results = length steps
         | Some k \<Rightarrow> length results = Suc k"
proof (cases "first_unsuccessful results")
  case None
  have "\<not> length results < length steps"
  proof
    assume l: "length results < length steps"
    then have "0 < length results" "\<not> succeeded (last results)"
      using assms unfolding run_ok_def by blast+
    moreover have "succeeded (results ! (length results - 1))"
      using None \<open>0 < length results\<close> by (simp add: first_unsuccessful_None)
    ultimately show False by (simp add: last_conv_nth)
  qed
  moreover have "length results \<le> length steps" using assms unfolding run_ok_def by blast
  ultimately show ?thesis using None by simp
next
  case (Some k)
  then show ?thesis
    using first_unsuccessful_Some [OF Some] run_ok_halts [OF assms, of k] by simp
qed


lemma failure_unsuccessful: "\<not> succeeded (failure m)"
  by (simp add: succeeded_def failure_def truthy_opt_def)

lemma succeeded_step_result:
  "succeeded (step_result pretty env tools steps i prev) \<longleftrightarrow>
     \<not> step_fails pretty env tools steps i prev"
proof -
  have r: "succeeded (resolution_value t e) \<longleftrightarrow> is_response e" for t e
    by (cases e)
       (simp_all add: resolution_value_def response_value_def error_value_def timeout_value_def
          succeeded_def truthy_opt_def)
  show ?thesis
    by (simp add: step_result_def step_fails_def Let_def r failure_unsuccessful)
qed

lemma run_ok_fails:
  assumes ok: "run_ok pretty env clock steps 0 st results st'"
  shows "case first_unsuccessful results of
           None \<Rightarrow> length results = length steps
                   \<and> (\<forall>j<length steps. \<not> step_fails pretty env (availableTools st) steps j (take j results))
         | Some k \<Rightarrow> length results = Suc k
                   \<and> step_fails pretty env (availableTools st) steps k (take k results)
                   \<and> (\<forall>j<k. \<not> step_fails pretty env (availableTools st) steps j (take j results))"
proof -
  have nth: "results ! j = step_result pretty env (availableTools st) steps j (take j results)"
    if "j < length results" for j
    using run_okD(5) [OF ok, of j] that by simp
  have s: "succeeded (results ! j) \<longleftrightarrow>
             \<not> step_fails pretty env (availableTools st) steps j (take j results)"
    if "j < length results" for j
    using nth [OF that] succeeded_step_result [of pretty env "availableTools st" steps j "take j results"]
    by simp
  show ?thesis
  proof (cases "first_unsuccessful results")
    case None
    then have l: "length results = length steps" using run_ok_length [OF ok] by simp
    have "\<forall>j<length results. succeeded (results ! j)"
      using None by (simp add: first_unsuccessful_None)
    then show ?thesis using None l s by simp
  next
    case (Some k)
    then have l: "length results = Suc k" using run_ok_length [OF ok] by simp
    have "k < length results" "\<not> succeeded (results ! k)" "\<forall>j<k. succeeded (results ! j)"
      using first_unsuccessful_Some [OF Some] by simp_all
    then show ?thesis using Some l s by simp
  qed
qed

subsection \<open>Scenario lemmas\<close>







lemma succeeded_response: "succeeded (response_value tname r)"
  by (simp add: succeeded_def response_value_def truthy_opt_def)



















subsection \<open>Two calls under one request id\<close>

lemma string_of_nat_5000: "string_of_nat 5000 = ''5000''"
  by (simp add: string_of_nat.simps digit_char_def)

lemma first_dispatched_eq:
  "first_dispatched =
     (\<lparr>tm_requestId = ''orchestrator-5000-0'', tm_resolve = 0, tm_tool = ''calculate'',
       tm_delay = 10000\<rparr>,
      calc_orch\<lparr>promises := 1,
        pendingRequests := [''orchestrator-5000-0'' \<mapsto>
           \<lparr>ri_resolve = 0, ri_step = calc_step, ri_stepIndex = 0, ri_timestamp = 5000\<rparr>],
        sent := [\<lparr>tc_id = ''orchestrator-5000-0'', tc_from = agentId, tc_name = ''calculate'',
                  tc_arguments = JObj [(''expression'', JStr ''2 + 3'')]\<rparr>]\<rparr>)"
  by (simp add: first_dispatched_def dispatch_def Let_def string_of_nat_5000 string_of_nat_0
      calc_orch_def orch_init_def calc_step_def)

lemma both_dispatched_eq:
  "both_dispatched =
     (\<lparr>tm_requestId = ''orchestrator-5000-0'', tm_resolve = 1, tm_tool = ''read_file'',
       tm_delay = 10000\<rparr>,
      calc_orch\<lparr>promises := 2,
        pendingRequests := [''orchestrator-5000-0'' \<mapsto>
           \<lparr>ri_resolve = 1, ri_step = read_step, ri_stepIndex = 0, ri_timestamp = 5000\<rparr>],
        sent := [\<lparr>tc_id = ''orchestrator-5000-0'', tc_from = agentId, tc_name = ''calculate'',
                  tc_arguments = JObj [(''expression'', JStr ''2 + 3'')]\<rparr>,
                 \<lparr>tc_id = ''orchestrator-5000-0'', tc_from = agentId, tc_name = ''read_file'',
                  tc_arguments = JObj [(''path'', JStr ''package.json'')]\<rparr>]\<rparr>)"
  by (simp add: both_dispatched_def first_dispatched_eq dispatch_def Let_def string_of_nat_5000
      string_of_nat_0 calc_orch_def orch_init_def read_step_def)

lemma first_answered_eq:
  "first_answered =
     calc_orch\<lparr>promises := 2, pendingRequests := Map.empty,
        resolved := [(1, response_value ''read_file'' (Some calc_result))],
        sent := [\<lparr>tc_id = ''orchestrator-5000-0'', tc_from = agentId, tc_name = ''calculate'',
                  tc_arguments = JObj [(''expression'', JStr ''2 + 3'')]\<rparr>,
                 \<lparr>tc_id = ''orchestrator-5000-0'', tc_from = agentId, tc_name = ''read_file'',
                  tc_arguments = JObj [(''path'', JStr ''package.json'')]\<rparr>]\<rparr>"
  by (simp add: first_answered_def both_dispatched_eq on_response_def calc_orch_def orch_init_def
      read_step_def)

text \<open>
  C3 does not hold of the code when two calls are dispatched in the same millisecond at
  the same step index. The request id is built from \<open>Date.now()\<close> and the step index
  alone, so both calls are sent under the id \<open>orchestrator-5000-0\<close>, and the second
  \<open>pendingRequests.set\<close> replaces the entry of the first. The response to the first call
  (the calculation) then resolves the promise of the second (the file read), and removes
  the entry. After that the response to the second call, an error, and both timers find
  no entry and change nothing: the promise of the first call is never resolved. If no
  reply arrives at all, the first timer takes the entry and the second call is the one
  that is never resolved.
\<close>

theorem correlation_token_shared:
  "map tc_id (sent (snd both_dispatched)) = [''orchestrator-5000-0'', ''orchestrator-5000-0'']
   \<and> map tc_name (sent (snd both_dispatched)) = [''calculate'', ''read_file'']
   \<and> tm_requestId (fst first_dispatched) = ''orchestrator-5000-0''
   \<and> tm_resolve (fst first_dispatched) = 0
   \<and> tm_requestId (fst both_dispatched) = ''orchestrator-5000-0''
   \<and> tm_resolve (fst both_dispatched) = 1
   \<and> map_option ri_resolve (pendingRequests (snd both_dispatched) ''orchestrator-5000-0'') = Some 1
   \<and> resolved first_answered = [(1, response_value ''read_file'' (Some calc_result))]
   \<and> on_response ''orchestrator-5000-0'' (Some file_result) first_answered = first_answered
   \<and> on_error ''orchestrator-5000-0'' None first_answered = first_answered
   \<and> on_timeout (fst first_dispatched) first_answered = first_answered
   \<and> on_timeout (fst both_dispatched) first_answered = first_answered
   \<and> map_of (resolved first_answered) 0 = None
   \<and> resolved (on_timeout (fst both_dispatched) (on_timeout (fst first_dispatched) (snd both_dispatched)))
       = [(0, timeout_value ''calculate'')]"
  by (simp add: first_answered_eq both_dispatched_eq first_dispatched_eq on_response_def
      on_error_def on_timeout_def calc_orch_def orch_init_def)

section \<open>Properties of \<open>natural_request\<close>\<close>

subsection \<open>The success flag\<close>

lemma first_unsuccessful_filter:
  "first_unsuccessful rs = Some k \<Longrightarrow>
     (case filter (\<lambda>r. \<not> succeeded r) rs of f # _ \<Rightarrow> f = rs ! k | [] \<Rightarrow> False)"
proof (induction rs arbitrary: k)
  case Nil
  then show ?case by simp
next
  case (Cons r rs)
  then show ?case by (cases "succeeded r") (auto split: list.splits)
qed

lemma synthesize_failure:
  assumes "first_unsuccessful results = Some k"
  shows "synthesizeResponse render pl results mem =
           Inr (mark_cross @ '' I encountered an error: '' @ template (jget (results ! k) ''error''))"
  using first_unsuccessful_filter [OF assms]
  by (auto simp: synthesizeResponse_def Let_def split: list.splits)

lemma natural_request_returns:
  "\<exists>out st'. natural_request pretty render env clock table query st = Some (out, st')"
proof -
  have "\<exists>results st1. run_steps pretty env clock steps 0 [] st = Some (results, st1)" for steps
    using run_steps_char [of "length steps" steps 0 "[]" pretty env clock st] by auto
  then show ?thesis
    unfolding natural_request_def Let_def
    by (auto split: sum.splits option.splits) (metis option.distinct(1))+
qed

subsection \<open>Scenario lemmas for the two requests\<close>

lemma find_first_hit:
  "list_all (\<lambda>x. \<not> P x) xs \<Longrightarrow> P y \<Longrightarrow> find P (xs @ y # ys) = Some y"
  by (induction xs) auto

lemma head_split: "intentPatterns_head = take 5 intentPatterns_head @ [calculate_group]"
  by (simp add: intentPatterns_head_def)

lemma calc_query_earlier:
  "list_all (\<lambda>g. \<not> group_matches g (map to_lower calc_query)) (take 5 intentPatterns_head)"
  by code_simp

lemma calc_query_matches: "group_matches calculate_group (map to_lower calc_query)"
  by code_simp

lemma calc_query_expression: "extractExpression mem calc_query = JStr ''25 * 4 + 10''"
  unfolding extractExpression_def by code_simp

lemma detect_calc_query:
  "detectIntent (intentPatterns_head @ rest) tools calc_query = calculate_group"
proof -
  have eq: "intentPatterns_head @ rest = take 5 intentPatterns_head @ calculate_group # rest"
    using head_split by (metis append_Cons append_Nil append_assoc)
  have "find (\<lambda>g. group_matches g (map to_lower calc_query)) (intentPatterns_head @ rest)
          = Some calculate_group"
    unfolding eq by (rule find_first_hit [OF calc_query_earlier calc_query_matches])
  then show ?thesis by (simp add: detectIntent_def)
qed

lemma calculate_group_fields:
  "ig_intent calculate_group = ''calculate''"
  "map_of (ig_methods calculate_group) ''extractExpression'' = Some extractExpression"
  by (simp_all add: calculate_group_def)

lemma plan_calc_query:
  "createExecutionPlan pretty calculate_group calc_query mem =
     Inr \<lparr>p_steps = [mk_step ''calculate'' [(''expression'', JStr ''25 * 4 + 10'')]
                        ''Calculate: 25 * 4 + 10'' None],
          p_intent = calculate_group, p_originalQuery = calc_query, p_error = None\<rparr>"
  by (simp add: createExecutionPlan_def plan_steps_def with_method_def call_method_def
      calculate_group_fields calc_query_expression Let_def)

lemma run_single:
  assumes "run_steps pretty env clock [s] 0 [] st = Some (results, st')"
  shows "results = [step_result pretty env (availableTools st) [s] 0 []]"
    and "conversationMemory st' = conversationMemory st"
    and "availableTools st' = availableTools st"
proof -
  obtain results' st'' where run: "run_steps pretty env clock [s] 0 [] st = Some (results', st'')"
      and ok: "run_ok pretty env clock [s] 0 st results' st''"
    using run_steps_char [of 1 "[s]" 0 "[]" pretty env clock st] by auto
  then have eq: "results' = results" "st'' = st'" using assms by simp_all
  have len: "length results \<le> 1" using run_okD(2) [OF ok] eq by simp
  have "\<not> length results < 1"
  proof
    assume "length results < 1"
    then have "length results' < length [s]" using eq by simp
    then show False using ok eq unfolding run_ok_def by simp
  qed
  then have l1: "length results = 1" using len by arith
  have "results ! 0 = step_result pretty env (availableTools st) [s] 0 (take 0 results)"
    using ok eq l1 unfolding run_ok_def by simp
  then show "results = [step_result pretty env (availableTools st) [s] 0 []]"
    using l1 by (cases results) simp_all
  show "conversationMemory st' = conversationMemory st" using run_okD(4) [OF ok] eq by simp
  show "availableTools st' = availableTools st" using run_okD(3) [OF ok] eq by simp
qed

lemma cleaned_calc: "filter (\<lambda>c. \<not> is_space c) ''25 * 4 + 10'' = ''25*4+10''"
  by code_simp

lemma allowed_calc: "re_test allowedChars ''25*4+10''"
  by code_simp

lemma harmless_calc: "\<not> re_test dangerous ''25 * 4 + 10''"
  by code_simp

lemma evaluate_calc:
  "engine ''25*4+10'' = Returned (JNum 110) \<Longrightarrow>
   evaluateExpression engine ''25 * 4 + 10'' = Inr (JNum 110)"
  unfolding evaluateExpression_def cleaned_calc Let_def
  using allowed_calc harmless_calc by simp

lemma string_of_nat_110: "string_of_nat 110 = ''110''"
  by code_simp

lemma integer_engine_calc: "integer_engine ''25*4+10'' = Returned (JNum 110)"
  by code_simp


lemma calc_step_result:
  assumes tool: "''calculate'' \<in> set tools"
    and engine: "engine ''25*4+10'' = Returned (JNum 110)"
    and env: "\<And>args. env 0 ''calculate'' args = calculate_reply engine locale args"
  shows "step_result pretty env tools
           [mk_step ''calculate'' [(''expression'', JStr ''25 * 4 + 10'')] ''Calculate: 25 * 4 + 10'' None] 0 []
         = response_value ''calculate''
             (Some (JObj [(''success'', JBool True), (''expression'', JStr ''25 * 4 + 10''),
                          (''result'', JNum 110), (''formatted'', JStr (locale (JNum 110)))]))"
proof -
  have ev: "evaluateExpression engine ''25 * 4 + 10'' = Inr (JNum 110)"
    using engine by (rule evaluate_calc)
  show ?thesis
    using tool
    by (simp add: step_result_def mk_step_def apply_dependency_def env calculate_reply_def
        resolution_value_def handle_calculate_def ev Let_def)
qed

lemma calc_response:
  "synthesizeResponse render
     \<lparr>p_steps = steps, p_intent = calculate_group, p_originalQuery = q, p_error = None\<rparr>
     [response_value ''calculate''
        (Some (JObj [(''success'', JBool True), (''expression'', JStr ''25 * 4 + 10''),
                     (''result'', JNum 110), (''formatted'', JStr f)]))] mem
   = Inr (mark_abacus @ '' Result: 25 * 4 + 10 = 110'')"
  by (simp add: synthesizeResponse_def response_value_def succeeded_def calculate_group_fields
      nth_opt_def Let_def string_of_nat_110 truthy_opt_def field_def oget_def template_def
      string_of_int_def)

lemma missing_tool_result:
  "step_result pretty env []
     [mk_step ''calculate'' [(''expression'', JStr ''25 * 4 + 10'')] ''Calculate: 25 * 4 + 10'' None] 0 []
   = failure (Some (JStr ''Tool calculate not available''))"
  by (simp add: step_result_def mk_step_def apply_dependency_def Let_def)


lemma run_no_steps: "run_steps pretty env clock [] 0 [] st = Some ([], st)"
  by (subst run_steps.simps) simp

lemma save_query_earlier:
  "list_all (\<lambda>g. \<not> group_matches g (map to_lower save_query)) (take 4 intentPatterns_head)"
  by code_simp

lemma save_query_matches: "group_matches save_context_group (map to_lower save_query)"
  by code_simp

lemma detect_save_query:
  "detectIntent intentPatterns_head tools save_query = save_context_group"
proof -
  have eq: "intentPatterns_head = take 4 intentPatterns_head @ save_context_group # [calculate_group]"
    by (simp add: intentPatterns_head_def)
  have "find (\<lambda>g. group_matches g (map to_lower save_query)) intentPatterns_head
          = Some save_context_group"
    by (subst eq) (rule find_first_hit [OF save_query_earlier save_query_matches])
  then show ?thesis by (simp add: detectIntent_def)
qed

lemma detect_calculate:
  assumes "list_all (\<lambda>g. \<not> group_matches g (map to_lower query)) (take 5 intentPatterns_head)"
    and "group_matches calculate_group (map to_lower query)"
  shows "detectIntent (intentPatterns_head @ rest) tools query = calculate_group"
proof -
  have eq: "intentPatterns_head @ rest = take 5 intentPatterns_head @ calculate_group # rest"
    using head_split by (metis append_Cons append_Nil append_assoc)
  have "find (\<lambda>g. group_matches g (map to_lower query)) (intentPatterns_head @ rest)
          = Some calculate_group"
    unfolding eq by (rule find_first_hit [OF assms])
  then show ?thesis by (simp add: detectIntent_def)
qed

lemma words_query_earlier:
  "list_all (\<lambda>g. \<not> group_matches g (map to_lower words_query)) (take 5 intentPatterns_head)"
  by code_simp

lemma words_query_matches: "group_matches calculate_group (map to_lower words_query)"
  by code_simp

lemma words_query_expression: "extractExpression mem words_query = JStr []"
  unfolding extractExpression_def by code_simp

lemma empty_not_allowed: "\<not> re_test allowedChars []"
  by code_simp

lemma refuses_empty:
  "handle_calculate engine fmt (JObj [(''expression'', JStr [])]) = refusal"
  by (simp add: handle_calculate_def evaluateExpression_def empty_not_allowed refusal_def
      field_def Let_def)

lemma plan_words_query:
  "createExecutionPlan pretty calculate_group words_query mem =
     Inr \<lparr>p_steps = [mk_step ''calculate'' [(''expression'', JStr [])] ''Calculate: '' None],
          p_intent = calculate_group, p_originalQuery = words_query, p_error = None\<rparr>"
  by (simp add: createExecutionPlan_def plan_steps_def with_method_def call_method_def
      calculate_group_fields words_query_expression Let_def)

lemma words_step_result:
  "step_result pretty calculator (availableTools calc_orch)
     [mk_step ''calculate'' [(''expression'', JStr [])] ''Calculate: '' None] 0 []
   = response_value ''calculate'' (Some refusal)"
  by (simp add: step_result_def mk_step_def apply_dependency_def calculator_def calculate_reply_def
      resolution_value_def refuses_empty calc_orch_def orch_init_def Let_def)

lemma words_response:
  "synthesizeResponse render
     \<lparr>p_steps = steps, p_intent = calculate_group, p_originalQuery = q, p_error = None\<rparr>
     [response_value ''calculate'' (Some refusal)] mem
   = Inr (mark_abacus @ '' Result:  = undefined'')"
  by (simp add: synthesizeResponse_def response_value_def succeeded_def calculate_group_fields
      nth_opt_def Let_def truthy_opt_def field_def oget_def template_def refusal_def)

lemma words_query_run:
  "\<exists>st1. natural_request js_to_string no_render calculator fixed_clock intentPatterns_head
       words_query calc_orch =
     Some (\<lparr>nr_success = True, nr_query = words_query, nr_intent = Some ''calculate'',
             nr_executedSteps = Some 1, nr_response = mark_abacus @ '' Result:  = undefined'',
             nr_error = None\<rparr>,
           st1\<lparr>conversationMemory :=
                 remember words_query ''calculate'' (Some refusal) 5000 memory_init\<rparr>)"
proof -
  let ?step = "mk_step ''calculate'' [(''expression'', JStr [])] ''Calculate: '' None"
  let ?pl = "\<lparr>p_steps = [?step], p_intent = calculate_group, p_originalQuery = words_query,
              p_error = None\<rparr>"
  have detect: "detectIntent intentPatterns_head (availableTools calc_orch) words_query = calculate_group"
    using detect_calculate [OF words_query_earlier words_query_matches, of "[]"] by simp
  have plan: "createExecutionPlan js_to_string calculate_group words_query (conversationMemory calc_orch)
                = Inr ?pl"
    by (rule plan_words_query)
  obtain rs s1 where run: "run_steps js_to_string calculator fixed_clock [?step] 0 [] calc_orch = Some (rs, s1)"
    using run_steps_char [of 1 "[?step]" 0 "[]" js_to_string calculator fixed_clock calc_orch] by auto
  have rs: "rs = [response_value ''calculate'' (Some refusal)]"
    using run_single(1) [OF run] words_step_result by simp
  have mem: "conversationMemory s1 = memory_init"
    using run_single(2) [OF run] by (simp add: calc_orch_def orch_init_def)
  have resp: "synthesizeResponse no_render ?pl rs (conversationMemory s1)
                = Inr (mark_abacus @ '' Result:  = undefined'')"
    unfolding rs by (rule words_response)
  have last: "rs \<noteq> []" "succeeded (last rs)" "jget (last rs) ''result'' = Some refusal"
    unfolding rs by (simp_all add: succeeded_response) (simp add: response_value_def field_def)
  show ?thesis
    unfolding natural_request_def detect Let_def
    using plan run resp last mem
    by (auto simp: calculate_group_fields fixed_clock_def intro!: exI [of _ s1])
qed

subsection \<open>Steps that fail\<close>

text \<open>
  C9, as the code has it. \<open>natural_request\<close> always returns. When the query classifies
  to a known intent and nothing was caught (the returned object carries no \<open>error\<close>),
  the returned object has \<open>success: true\<close> and \<open>executedSteps\<close> equal to the length of
  the compiled plan, whatever the steps did. A step fails, for the orchestrator, when it
  is the plan's own \<open>error\<close> step, when its tool is not available, when the agent replies
  with an error message, or when the timer fires first. If a step failed in that sense,
  the response text is the failure message followed by the \<open>error\<close> of the first failed
  result, and the conversation memory is left as it was; no other field of the returned
  object tells of the failure. If no step failed in that sense, the results are all
  responses, whatever they say of themselves.
\<close>

theorem natural_request_success_flag:
  "\<exists>out st'.
     natural_request pretty render env clock table query st = Some (out, st')
     \<and> (ig_intent (detectIntent table (availableTools st) query) \<noteq> ''unknown'' \<and> nr_error out = None \<longrightarrow>
          nr_success out
          \<and> (\<exists>pl results st1.
                createExecutionPlan pretty (detectIntent table (availableTools st) query) query
                   (conversationMemory st) = Inr pl
                \<and> run_steps pretty env clock (p_steps pl) 0 [] st = Some (results, st1)
                \<and> nr_executedSteps out = Some (length (p_steps pl))
                \<and> (\<forall>k. first_unsuccessful results = Some k \<longrightarrow>
                       step_fails pretty env (availableTools st) (p_steps pl) k (take k results)
                       \<and> (\<forall>j<k. \<not> step_fails pretty env (availableTools st) (p_steps pl) j
                                      (take j results))
                       \<and> results ! k =
                           step_result pretty env (availableTools st) (p_steps pl) k (take k results)
                       \<and> nr_response out =
                           mark_cross @ '' I encountered an error: '' @ template (jget (results ! k) ''error'')
                       \<and> conversationMemory st' = conversationMemory st)
                \<and> (first_unsuccessful results = None \<longrightarrow>
                       (\<forall>j<length (p_steps pl).
                          \<not> step_fails pretty env (availableTools st) (p_steps pl) j
                              (take j results)))))"
proof -
  let ?intent = "detectIntent table (availableTools st) query"
  show ?thesis
  proof (cases "ig_intent ?intent = ''unknown''")
    case True
    then show ?thesis by (simp add: natural_request_def Let_def)
  next
    case known: False
    show ?thesis
    proof (cases "createExecutionPlan pretty ?intent query (conversationMemory st)")
      case (Inl e)
      then show ?thesis using known by (simp add: natural_request_def Let_def caught_def)
    next
      case (Inr pl)
      obtain results st1 where run: "run_steps pretty env clock (p_steps pl) 0 [] st = Some (results, st1)"
        and ok: "run_ok pretty env clock (p_steps pl) 0 st results st1"
        using run_steps_char [of "length (p_steps pl)" "p_steps pl" 0 "[]" pretty env clock st] by auto
      have mem: "conversationMemory st1 = conversationMemory st" by (rule run_okD(4) [OF ok])
      show ?thesis
      proof (cases "synthesizeResponse render pl results (conversationMemory st1)")
        case (Inl e)
        then show ?thesis using known Inr run by (simp add: natural_request_def Let_def caught_def)
      next
        case resp: (Inr response)
        have halted: "\<not> (results \<noteq> [] \<and> succeeded (last results))" if f: "first_unsuccessful results = Some k" for k
        proof -
          have "k < length results" "\<not> succeeded (results ! k)"
            using first_unsuccessful_Some [OF f] by simp_all
          then have "length results = Suc k" using run_ok_halts [OF ok] by simp
          then have "last results = results ! k" by (cases results rule: rev_cases) (simp_all add: nth_append)
          then show ?thesis using \<open>\<not> succeeded (results ! k)\<close> by simp
        qed
        have r: "response = mark_cross @ '' I encountered an error: '' @ template (jget (results ! k) ''error'')"
          if f: "first_unsuccessful results = Some k" for k
          using synthesize_failure [OF f, of render pl "conversationMemory st1"] resp by simp
        have fails: "case first_unsuccessful results of
             None \<Rightarrow> length results = length (p_steps pl)
                     \<and> (\<forall>j<length (p_steps pl).
                           \<not> step_fails pretty env (availableTools st) (p_steps pl) j (take j results))
           | Some k \<Rightarrow> length results = Suc k
                     \<and> step_fails pretty env (availableTools st) (p_steps pl) k (take k results)
                     \<and> (\<forall>j<k. \<not> step_fails pretty env (availableTools st) (p_steps pl) j
                                    (take j results))"
          by (rule run_ok_fails [OF ok])
        have nth: "results ! k = step_result pretty env (availableTools st) (p_steps pl) k (take k results)"
          if f: "first_unsuccessful results = Some k" for k
          using run_okD(5) [OF ok, of k] first_unsuccessful_Some [OF f] by simp
        define st' where "st' =
          (if results \<noteq> [] \<and> succeeded (last results)
           then st1\<lparr>conversationMemory :=
                  remember query (ig_intent ?intent) (jget (last results) ''result'')
                    (clock (length (p_steps pl))) (conversationMemory st1)\<rparr>
           else st1)"
        define out where "out =
          \<lparr>nr_success = True, nr_query = query, nr_intent = Some (ig_intent ?intent),
           nr_executedSteps = Some (length (p_steps pl)), nr_response = response, nr_error = None\<rparr>"
        have nr: "natural_request pretty render env clock table query st = Some (out, st')"
          using known Inr run resp by (simp add: natural_request_def Let_def out_def st'_def)
        have kept: "conversationMemory st' = conversationMemory st"
          if f: "first_unsuccessful results = Some k" for k
          using halted [OF f] mem by (auto simp: st'_def)
        have failing: "\<forall>k. first_unsuccessful results = Some k \<longrightarrow>
                       step_fails pretty env (availableTools st) (p_steps pl) k (take k results)
                       \<and> (\<forall>j<k. \<not> step_fails pretty env (availableTools st) (p_steps pl) j
                                      (take j results))
                       \<and> results ! k =
                           step_result pretty env (availableTools st) (p_steps pl) k (take k results)
                       \<and> nr_response out =
                           mark_cross @ '' I encountered an error: '' @ template (jget (results ! k) ''error'')
                       \<and> conversationMemory st' = conversationMemory st"
        proof (intro allI impI)
          fix k assume f: "first_unsuccessful results = Some k"
          show "step_fails pretty env (availableTools st) (p_steps pl) k (take k results)
                       \<and> (\<forall>j<k. \<not> step_fails pretty env (availableTools st) (p_steps pl) j
                                      (take j results))
                       \<and> results ! k =
                           step_result pretty env (availableTools st) (p_steps pl) k (take k results)
                       \<and> nr_response out =
                           mark_cross @ '' I encountered an error: '' @ template (jget (results ! k) ''error'')
                       \<and> conversationMemory st' = conversationMemory st"
            using fails f nth [OF f] r [OF f] kept [OF f] by (simp add: out_def)
        qed
        have passing: "first_unsuccessful results = None \<longrightarrow>
                       (\<forall>j<length (p_steps pl).
                          \<not> step_fails pretty env (availableTools st) (p_steps pl) j
                              (take j results))"
          using fails by (cases "first_unsuccessful results") simp_all
        have inner: "\<exists>pl results st1.
                createExecutionPlan pretty ?intent query (conversationMemory st) = Inr pl
                \<and> run_steps pretty env clock (p_steps pl) 0 [] st = Some (results, st1)
                \<and> nr_executedSteps out = Some (length (p_steps pl))
                \<and> (\<forall>k. first_unsuccessful results = Some k \<longrightarrow>
                       step_fails pretty env (availableTools st) (p_steps pl) k (take k results)
                       \<and> (\<forall>j<k. \<not> step_fails pretty env (availableTools st) (p_steps pl) j
                                      (take j results))
                       \<and> results ! k =
                           step_result pretty env (availableTools st) (p_steps pl) k (take k results)
                       \<and> nr_response out =
                           mark_cross @ '' I encountered an error: '' @ template (jget (results ! k) ''error'')
                       \<and> conversationMemory st' = conversationMemory st)
                \<and> (first_unsuccessful results = None \<longrightarrow>
                       (\<forall>j<length (p_steps pl).
                          \<not> step_fails pretty env (availableTools st) (p_steps pl) j
                              (take j results)))"
          using Inr run failing passing by (intro exI [of _ pl] exI [of _ results] exI [of _ st1]) (simp add: out_def)
        have flag: "nr_success out" by (simp add: out_def)
        show ?thesis
          using nr inner flag
          apply (intro exI [of _ out] exI [of _ st'])
          by simp
      qed
    qed
  qed
qed

theorem natural_request_success_flag_witness:
  "\<exists>out st'.
     natural_request js_to_string no_render calculator fixed_clock intentPatterns_head
       ''calculate 25 * 4 + 10'' orch_init = Some (out, st')
     \<and> ig_intent (detectIntent intentPatterns_head (availableTools orch_init) ''calculate 25 * 4 + 10'')
         \<noteq> ''unknown''
     \<and> nr_error out = None
     \<and> nr_success out
     \<and> nr_response out = mark_cross @ '' I encountered an error: Tool calculate not available''
     \<and> conversationMemory st' = memory_init"
proof -
  let ?q = "''calculate 25 * 4 + 10''"
  let ?step = "mk_step ''calculate'' [(''expression'', JStr ''25 * 4 + 10'')] ''Calculate: 25 * 4 + 10'' None"
  let ?pl = "\<lparr>p_steps = [?step], p_intent = calculate_group, p_originalQuery = ?q, p_error = None\<rparr>"
  have q: "?q = calc_query" by (simp add: calc_query_def)
  have tools: "availableTools orch_init = []" and mem: "conversationMemory orch_init = memory_init"
    by (simp_all add: orch_init_def)
  have detect: "detectIntent intentPatterns_head (availableTools orch_init) ?q = calculate_group"
    using detect_calc_query [of "[]"] unfolding q by simp
  have known: "ig_intent (detectIntent intentPatterns_head (availableTools orch_init) ?q) \<noteq> ''unknown''"
    unfolding detect by (simp add: calculate_group_fields)
  have plan: "createExecutionPlan js_to_string calculate_group ?q (conversationMemory orch_init) = Inr ?pl"
    using plan_calc_query [of js_to_string "conversationMemory orch_init"] unfolding q .
  obtain out st' where nr: "natural_request js_to_string no_render calculator fixed_clock
       intentPatterns_head ?q orch_init = Some (out, st')"
    and flag: "ig_intent (detectIntent intentPatterns_head (availableTools orch_init) ?q) \<noteq> ''unknown''
          \<and> nr_error out = None \<longrightarrow>
          nr_success out
          \<and> (\<exists>pl results st1.
                createExecutionPlan js_to_string
                   (detectIntent intentPatterns_head (availableTools orch_init) ?q) ?q
                   (conversationMemory orch_init) = Inr pl
                \<and> run_steps js_to_string calculator fixed_clock (p_steps pl) 0 [] orch_init = Some (results, st1)
                \<and> nr_executedSteps out = Some (length (p_steps pl))
                \<and> (\<forall>k. first_unsuccessful results = Some k \<longrightarrow>
                       nr_response out =
                         mark_cross @ '' I encountered an error: '' @ template (jget (results ! k) ''error'')
                       \<and> conversationMemory st' = conversationMemory orch_init))"
    using natural_request_success_flag [of js_to_string no_render calculator fixed_clock
        intentPatterns_head ?q orch_init] by blast
  obtain rs s1 where run: "run_steps js_to_string calculator fixed_clock [?step] 0 [] orch_init = Some (rs, s1)"
    using run_steps_char [of 1 "[?step]" 0 "[]" js_to_string calculator fixed_clock orch_init] by auto
  have rs: "rs = [failure (Some (JStr ''Tool calculate not available''))]"
    using run_single(1) [OF run] missing_tool_result unfolding tools by simp
  have first: "first_unsuccessful rs = Some 0"
    unfolding rs by (simp add: failure_unsuccessful)
  have resp: "synthesizeResponse no_render ?pl rs (conversationMemory s1) =
      Inr (mark_cross @ '' I encountered an error: '' @ template (jget (rs ! 0) ''error''))"
    by (rule synthesize_failure [OF first])
  have noerr: "nr_error out = None"
    using nr unfolding natural_request_def detect Let_def
    using plan run resp by (auto simp: calculate_group_fields)
  from flag known noerr obtain pl results st1 where
      success: "nr_success out"
      and pl: "createExecutionPlan js_to_string
                   (detectIntent intentPatterns_head (availableTools orch_init) ?q) ?q
                   (conversationMemory orch_init) = Inr pl"
      and run': "run_steps js_to_string calculator fixed_clock (p_steps pl) 0 [] orch_init = Some (results, st1)"
      and fail: "\<forall>k. first_unsuccessful results = Some k \<longrightarrow>
                       nr_response out =
                         mark_cross @ '' I encountered an error: '' @ template (jget (results ! k) ''error'')
                       \<and> conversationMemory st' = conversationMemory orch_init"
    by blast
  have "pl = ?pl" using pl plan unfolding detect by simp
  then have "results = rs" using run run' by simp
  then have "nr_response out = mark_cross @ '' I encountered an error: '' @ template (jget (rs ! 0) ''error'')"
      and "conversationMemory st' = memory_init"
    using fail first mem by simp_all
  then have "nr_response out = mark_cross @ '' I encountered an error: Tool calculate not available''"
      "conversationMemory st' = memory_init"
    unfolding rs by (simp_all add: failure_def field_def template_def)
  then show ?thesis using nr known noerr success by blast
qed

text \<open>
  C9 as worded fails when the step's tool itself reports the failure. The request
  \<open>calculate two plus two\<close> is planned as one call of \<open>calculate\<close> with the empty
  expression; the calculator refuses it and answers with a result that says
  \<open>success: false\<close> and carries the error. The orchestrator wraps the response as a
  success: the returned object has \<open>success: true\<close> and no \<open>error\<close>, its response text is
  the normal text of a calculation, \<open>Result:  = undefined\<close>, with no word of the error,
  and the refusal is stored as the last result.
\<close>

theorem tool_refusal_counterexample:
  "handle_calculate integer_engine plain_locale (JObj [(''expression'', JStr [])]) = refusal
   \<and> map_option (nr_success \<circ> fst)
        (natural_request js_to_string no_render calculator fixed_clock intentPatterns_head
           ''calculate two plus two'' calc_orch) = Some True
   \<and> map_option (nr_error \<circ> fst)
        (natural_request js_to_string no_render calculator fixed_clock intentPatterns_head
           ''calculate two plus two'' calc_orch) = Some None
   \<and> map_option (nr_response \<circ> fst)
        (natural_request js_to_string no_render calculator fixed_clock intentPatterns_head
           ''calculate two plus two'' calc_orch) = Some (mark_abacus @ '' Result:  = undefined'')
   \<and> map_option (lastResult \<circ> conversationMemory \<circ> snd)
        (natural_request js_to_string no_render calculator fixed_clock intentPatterns_head
           ''calculate two plus two'' calc_orch) = Some (Some refusal)"
proof -
  have q: "''calculate two plus two'' = words_query" by (simp add: words_query_def)
  show ?thesis
    unfolding q using words_query_run refuses_empty [of integer_engine plain_locale]
    by (auto simp: remember_def Let_def)
qed

subsection \<open>A calculation\<close>

text \<open>
  C6. For the query \<open>calculate 25 * 4 + 10\<close>, with \<open>calculate\<close> among the available
  tools, an engine that evaluates \<open>25*4+10\<close> to 110 and a calculator agent that answers
  the call of step 0 with its handler's result: none of the five groups before the
  \<open>calculate\<close> group matches the query; \<open>detectIntent\<close> returns the \<open>calculate\<close> group,
  whatever groups follow it in the table; \<open>extractExpression\<close> yields \<open>25 * 4 + 10\<close>; and
  \<open>natural_request\<close> returns, with \<open>success: true\<close>, intent \<open>calculate\<close>, one executed
  step and a response that reports \<open>25 * 4 + 10 = 110\<close>.
\<close>

theorem calculate_query_answered:
  assumes "''calculate'' \<in> set (availableTools st)"
    and "engine ''25*4+10'' = Returned (JNum 110)"
    and "\<And>args. env 0 ''calculate'' args = calculate_reply engine fmt args"
  shows "list_all (\<lambda>g. \<not> group_matches g (map to_lower ''calculate 25 * 4 + 10''))
           [web_ai_analyze_group, extract_text_group, fetch_url_group, read_file_group,
            save_context_group]
       \<and> detectIntent (intentPatterns_head @ rest) (availableTools st) ''calculate 25 * 4 + 10''
           = calculate_group
       \<and> ig_intent calculate_group = ''calculate''
       \<and> call_method calculate_group ''extractExpression'' (conversationMemory st)
             ''calculate 25 * 4 + 10'' = Inr (JStr ''25 * 4 + 10'')
       \<and> (\<exists>out st'.
             natural_request pretty render env clock (intentPatterns_head @ rest)
               ''calculate 25 * 4 + 10'' st = Some (out, st')
             \<and> nr_success out \<and> nr_intent out = Some ''calculate'' \<and> nr_executedSteps out = Some 1
             \<and> nr_response out = mark_abacus @ '' Result: 25 * 4 + 10 = 110'')"
proof -
  let ?q = "''calculate 25 * 4 + 10''"
  let ?step = "mk_step ''calculate'' [(''expression'', JStr ''25 * 4 + 10'')] ''Calculate: 25 * 4 + 10'' None"
  have q: "?q = calc_query" by (simp add: calc_query_def)
  have earlier: "list_all (\<lambda>g. \<not> group_matches g (map to_lower ?q))
           [web_ai_analyze_group, extract_text_group, fetch_url_group, read_file_group,
            save_context_group]"
    using calc_query_earlier unfolding q by (simp add: intentPatterns_head_def)
  have detect: "detectIntent (intentPatterns_head @ rest) (availableTools st) ?q = calculate_group"
    unfolding q by (rule detect_calc_query)
  have slot: "call_method calculate_group ''extractExpression'' (conversationMemory st) ?q
                = Inr (JStr ''25 * 4 + 10'')"
    unfolding q by (simp add: call_method_def calculate_group_fields calc_query_expression)
  have plan: "createExecutionPlan pretty calculate_group ?q (conversationMemory st) =
     Inr \<lparr>p_steps = [?step], p_intent = calculate_group, p_originalQuery = ?q, p_error = None\<rparr>"
    using plan_calc_query [of pretty "conversationMemory st"] unfolding q .
  obtain results st1 where run: "run_steps pretty env clock [?step] 0 [] st = Some (results, st1)"
    using run_steps_char [of 1 "[?step]" 0 "[]" pretty env clock st] by auto
  have results: "results = [response_value ''calculate''
             (Some (JObj [(''success'', JBool True), (''expression'', JStr ''25 * 4 + 10''),
                          (''result'', JNum 110), (''formatted'', JStr (fmt (JNum 110)))]))]"
    using run_single(1) [OF run] calc_step_result [of "availableTools st" engine env fmt pretty] assms by simp
  have resp: "synthesizeResponse render
     \<lparr>p_steps = [?step], p_intent = calculate_group, p_originalQuery = ?q, p_error = None\<rparr>
     results (conversationMemory st1) = Inr (mark_abacus @ '' Result: 25 * 4 + 10 = 110'')"
    unfolding results by (rule calc_response)
  have nr: "\<exists>out st'.
             natural_request pretty render env clock (intentPatterns_head @ rest) ?q st = Some (out, st')
             \<and> nr_success out \<and> nr_intent out = Some ''calculate'' \<and> nr_executedSteps out = Some 1
             \<and> nr_response out = mark_abacus @ '' Result: 25 * 4 + 10 = 110''"
    unfolding natural_request_def detect Let_def
    using plan run resp by (simp add: calculate_group_fields)
  show ?thesis using earlier detect slot nr calculate_group_fields(1) by blast
qed

theorem calculate_query_answered_witness:
  "''calculate'' \<in> set (availableTools calc_orch)
   \<and> integer_engine ''25*4+10'' = Returned (JNum 110)
   \<and> detectIntent intentPatterns_head (availableTools calc_orch) ''calculate 25 * 4 + 10'' = calculate_group
   \<and> (\<exists>out st'.
         natural_request js_to_string no_render calculator fixed_clock intentPatterns_head
           ''calculate 25 * 4 + 10'' calc_orch = Some (out, st')
         \<and> nr_success out
         \<and> nr_response out = mark_abacus @ '' Result: 25 * 4 + 10 = 110'')"
proof -
  have tool: "''calculate'' \<in> set (availableTools calc_orch)"
    by (simp add: calc_orch_def orch_init_def)
  have env: "\<And>args. calculator 0 ''calculate'' args = calculate_reply integer_engine plain_locale args"
    by (simp add: calculator_def)
  show ?thesis
    using calculate_query_answered [of calc_orch integer_engine calculator plain_locale "[]"
        js_to_string no_render fixed_clock] tool integer_engine_calc env
    by auto
qed

subsection \<open>Saving with nothing to save\<close>

lemma compile_error_reported:
  assumes "ig_intent (detectIntent table (availableTools st) query) \<noteq> ''unknown''"
    and "createExecutionPlan pretty (detectIntent table (availableTools st) query) query
           (conversationMemory st) = Inl e"
  shows "natural_request pretty render env clock table query st =
           Some (\<lparr>nr_success = False, nr_query = query, nr_intent = None, nr_executedSteps = None,
                   nr_response = mark_cross @ '' Error processing request: '' @ e,
                   nr_error = Some e\<rparr>, st)"
  using assms by (simp add: natural_request_def Let_def caught_def)

text \<open>
  C8 at the code. A query that classifies to \<open>save_context\<close> (with its
  \<open>extractFileName\<close>), while \<open>lastResult\<close> is empty and \<open>recentResults\<close> is empty:
  \<open>createExecutionPlan\<close> emits no step and writes the "No previous result to save" text
  to \<open>plan.error\<close>, but it returns the plan as usual, and nothing reads \<open>plan.error\<close>.
  So \<open>natural_request\<close> does not report that error: it returns an object with
  \<open>success: true\<close>, no \<open>error\<close>, 0 executed steps and the response "Failed to save file -
  no result returned", the text \<open>synthesizeResponse\<close> has for a save whose call gave no
  result. The orchestrator's state is left as it was: no call is sent and the conversation
  memory is unchanged. (An error that \<open>createExecutionPlan\<close> throws is reported, with
  \<open>success: false\<close>: \<open>compile_error_reported\<close>.)
\<close>

theorem save_without_prior_result:
  assumes "ig_intent (detectIntent table (availableTools st) query) = ''save_context''"
    and "map_of (ig_methods (detectIntent table (availableTools st) query)) ''extractFileName'' = Some f"
    and "\<not> truthy_opt (lastResult (conversationMemory st))"
    and "recentResults (conversationMemory st) = []"
  shows "createExecutionPlan pretty (detectIntent table (availableTools st) query) query
           (conversationMemory st)
         = Inr \<lparr>p_steps = [], p_intent = detectIntent table (availableTools st) query,
                p_originalQuery = query, p_error = Some no_previous_result\<rparr>
       \<and> natural_request pretty render env clock table query st
         = Some (\<lparr>nr_success = True, nr_query = query, nr_intent = Some ''save_context'',
                   nr_executedSteps = Some 0,
                   nr_response = mark_cross @ '' Failed to save file - no result returned'',
                   nr_error = None\<rparr>, st)"
proof -
  let ?intent = "detectIntent table (availableTools st) query"
  let ?pl = "\<lparr>p_steps = [], p_intent = ?intent, p_originalQuery = query,
              p_error = Some no_previous_result\<rparr>"
  have prior: "prior_result (conversationMemory st) = lastResult (conversationMemory st)"
    using assms(4) by (simp add: prior_result_def)
  have plan: "createExecutionPlan pretty ?intent query (conversationMemory st) = Inr ?pl"
    using assms(1,2,3) prior
    by (auto simp: createExecutionPlan_def call_method_def truthy_opt_def Let_def
        split: option.splits)
  have resp: "synthesizeResponse render ?pl [] mem
        = Inr (mark_cross @ '' Failed to save file - no result returned'')" for mem
    using assms(1)
    by (simp add: synthesizeResponse_def nth_opt_def oget_def truthy_opt_def Let_def)
  have "natural_request pretty render env clock table query st
         = Some (\<lparr>nr_success = True, nr_query = query, nr_intent = Some ''save_context'',
                   nr_executedSteps = Some 0,
                   nr_response = mark_cross @ '' Failed to save file - no result returned'',
                   nr_error = None\<rparr>, st)"
    unfolding natural_request_def Let_def
    using assms(1) plan resp by (simp add: run_no_steps)
  then show ?thesis using plan by simp
qed

theorem save_without_prior_result_witness:
  "ig_intent (detectIntent intentPatterns_head (availableTools write_orch) ''save that to out.txt'')
     = ''save_context''
   \<and> \<not> truthy_opt (lastResult (conversationMemory write_orch))
   \<and> recentResults (conversationMemory write_orch) = []
   \<and> natural_request js_to_string no_render calculator fixed_clock intentPatterns_head
        ''save that to out.txt'' write_orch
      = Some (\<lparr>nr_success = True, nr_query = ''save that to out.txt'',
                nr_intent = Some ''save_context'', nr_executedSteps = Some 0,
                nr_response = mark_cross @ '' Failed to save file - no result returned'',
                nr_error = None\<rparr>, write_orch)
   \<and> sent write_orch = []"
proof -
  have q: "''save that to out.txt'' = save_query" by (simp add: save_query_def)
  have detect: "detectIntent intentPatterns_head (availableTools write_orch) ''save that to out.txt''
                  = save_context_group"
    unfolding q by (rule detect_save_query)
  have a1: "ig_intent (detectIntent intentPatterns_head (availableTools write_orch) ''save that to out.txt'')
              = ''save_context''"
    unfolding detect by (simp add: save_context_group_def)
  have a2: "map_of (ig_methods (detectIntent intentPatterns_head (availableTools write_orch)
              ''save that to out.txt'')) ''extractFileName'' = Some extractFileName"
    unfolding detect by (simp add: save_context_group_def)
  have a3: "\<not> truthy_opt (lastResult (conversationMemory write_orch))"
    by (simp add: write_orch_def orch_init_def memory_init_def truthy_opt_def)
  have a4: "recentResults (conversationMemory write_orch) = []"
    by (simp add: write_orch_def orch_init_def memory_init_def)
  have a5: "sent write_orch = []"
    by (simp add: write_orch_def orch_init_def)
  show ?thesis
    using save_without_prior_result [OF a1 a2 a3 a4, of js_to_string no_render calculator fixed_clock]
      a1 a3 a4 a5
    by blast
qed

end
